theory Spec2Isabelle
  imports Main "HOL-Library.Sublist"
begin

section \<open>JavaScript values used by the automation library\<close>

text \<open>
  The two source files are JavaScript.  Strings are modelled as \<^typ>\<open>string\<close>
  (one \<^typ>\<open>char\<close> per code unit, restricted to the Latin-1 range), exceptions as
  values of \<open>js_error\<close> on the left of a sum, and the outbound HTTP transport
  (\<^verbatim>\<open>axios\<close>) as an oracle that may answer or raise.
\<close>

subsection \<open>Exceptions\<close>

datatype js_error = TypeError string | TransportError string

fun error_message :: "js_error \<Rightarrow> string" where
  "error_message (TypeError m) = m"
| "error_message (TransportError m) = m"

definition bind_result :: "js_error + 'a \<Rightarrow> ('a \<Rightarrow> js_error + 'b) \<Rightarrow> js_error + 'b" where
  "bind_result r f = (case r of Inl e \<Rightarrow> Inl e | Inr x \<Rightarrow> f x)"

definition cannot_read :: "string \<Rightarrow> string \<Rightarrow> js_error" where
  "cannot_read v k =
     TypeError (''Cannot read properties of '' @ v @ '' (reading '' @ [CHR 0x27] @ k @ [CHR 0x27] @ '')'')"

subsection \<open>Numbers: integer-valued doubles\<close>

text \<open>
  \<^verbatim>\<open>shortcodeToMediaId\<close> computes with JavaScript Numbers, which are IEEE 754
  doubles.  Every value it can produce is an integer or an infinity, so a Number is
  modelled as an integer that a double represents exactly, or one of the special values.
  An arithmetic operation is the exact integer operation followed by rounding to the
  nearest double (53 significant bits, ties to even, overflow to infinity at
  \<open>2 ^ 1024\<close>).  The two zeros are not told apart: both print as \<^verbatim>\<open>0\<close>.
\<close>

datatype jsnum = Fin int | PosInf | NegInf | NaN

function bit_length :: "int \<Rightarrow> nat" where
  "bit_length n = (if n \<le> 0 then 0 else Suc (bit_length (n div 2)))"
  by pat_completeness auto
termination
  by (relation "measure nat") auto

declare bit_length.simps [simp del]

definition round_to_double :: "int \<Rightarrow> jsnum" where
  "round_to_double n =
     (let a = \<bar>n\<bar> in
      if a < 2 ^ 53 then Fin n
      else
        let e = bit_length a - 53;
            q = a div 2 ^ e;
            r = a mod 2 ^ e;
            h = 2 ^ (e - 1);
            q' = (if h < r \<or> (r = h \<and> odd q) then q + 1 else q);
            m = q' * 2 ^ e
        in if 2 ^ 1024 \<le> m then (if n < 0 then NegInf else PosInf)
           else Fin (if n < 0 then - m else m))"

fun js_mul :: "jsnum \<Rightarrow> jsnum \<Rightarrow> jsnum" where
  "js_mul (Fin a) (Fin b) = round_to_double (a * b)"
| "js_mul NaN _ = NaN"
| "js_mul _ NaN = NaN"
| "js_mul (Fin a) PosInf = (if a = 0 then NaN else if a < 0 then NegInf else PosInf)"
| "js_mul (Fin a) NegInf = (if a = 0 then NaN else if a < 0 then PosInf else NegInf)"
| "js_mul PosInf (Fin b) = (if b = 0 then NaN else if b < 0 then NegInf else PosInf)"
| "js_mul NegInf (Fin b) = (if b = 0 then NaN else if b < 0 then PosInf else NegInf)"
| "js_mul PosInf PosInf = PosInf"
| "js_mul NegInf NegInf = PosInf"
| "js_mul PosInf NegInf = NegInf"
| "js_mul NegInf PosInf = NegInf"

fun js_add :: "jsnum \<Rightarrow> jsnum \<Rightarrow> jsnum" where
  "js_add (Fin a) (Fin b) = round_to_double (a + b)"
| "js_add NaN _ = NaN"
| "js_add _ NaN = NaN"
| "js_add PosInf NegInf = NaN"
| "js_add NegInf PosInf = NaN"
| "js_add PosInf _ = PosInf"
| "js_add _ PosInf = PosInf"
| "js_add NegInf _ = NegInf"
| "js_add _ NegInf = NegInf"

subsection \<open>Strings: \<^verbatim>\<open>indexOf\<close>, \<^verbatim>\<open>split\<close>, \<^verbatim>\<open>trim\<close>\<close>

fun indexOf_from :: "int \<Rightarrow> string \<Rightarrow> char \<Rightarrow> int" where
  "indexOf_from i [] c = - 1"
| "indexOf_from i (x # xs) c = (if x = c then i else indexOf_from (i + 1) xs c)"

definition indexOf :: "string \<Rightarrow> char \<Rightarrow> int" where
  "indexOf s c = indexOf_from 0 s c"

text \<open>
  \<^verbatim>\<open>s.split(sep)\<close> for a non-empty separator: scan left to right, cut at every
  occurrence of \<open>sep\<close> and resume behind it.  The result is never empty.
\<close>

function js_split_from :: "string \<Rightarrow> string \<Rightarrow> string \<Rightarrow> string list" where
  "js_split_from sep acc [] = [rev acc]"
| "js_split_from sep acc (c # cs) =
     (if sep \<noteq> [] \<and> prefix sep (c # cs)
      then rev acc # js_split_from sep [] (drop (length sep) (c # cs))
      else js_split_from sep (c # acc) cs)"
  by pat_completeness auto
termination
  by (relation "measure (\<lambda>(sep, acc, s). length s)") auto

definition js_split :: "string \<Rightarrow> string \<Rightarrow> string list" where
  "js_split sep s = (if sep = [] then map (\<lambda>c. [c]) s else js_split_from sep [] s)"

text \<open>\<^verbatim>\<open>xs[i]\<close> on an array: \<^verbatim>\<open>undefined\<close> (here \<open>None\<close>) out of range.\<close>

definition js_index :: "'a list \<Rightarrow> nat \<Rightarrow> 'a option" where
  "js_index xs i = (if i < length xs then Some (xs ! i) else None)"

text \<open>Calling \<^verbatim>\<open>.split\<close> on \<^verbatim>\<open>undefined\<close> raises a TypeError.\<close>

fun split_method :: "string option \<Rightarrow> string \<Rightarrow> js_error + string list" where
  "split_method None sep = Inl (cannot_read ''undefined'' ''split'')"
| "split_method (Some s) sep = Inr (js_split sep s)"

definition is_js_whitespace :: "char \<Rightarrow> bool" where
  "is_js_whitespace c = (of_char c \<in> {9, 10, 11, 12, 13, 32, 160 :: nat})"

definition js_trim :: "string \<Rightarrow> string" where
  "js_trim s = rev (dropWhile is_js_whitespace (rev (dropWhile is_js_whitespace s)))"

text \<open>\<^verbatim>\<open>s || d\<close> for a string or \<^verbatim>\<open>undefined\<close>: the empty string is falsy too.\<close>

fun or_default :: "string option \<Rightarrow> string \<Rightarrow> string" where
  "or_default None d = d"
| "or_default (Some s) d = (if s = [] then d else s)"

subsection \<open>Parsed JSON: request fields and response bodies\<close>

text \<open>
  A value as \<^verbatim>\<open>JSON.parse\<close> delivers it, or \<^verbatim>\<open>undefined\<close> for a missing
  property.  The fields of a request body and the bodies of the responses are such
  values.  A number is carried by its rendering, which is all the code ever uses of it.
\<close>

datatype json =
    JUndefined
  | JNull
  | JBool bool
  | JNum string
  | JStr string
  | JArr "json list"
  | JObj "(string \<times> json) list"

fun truthy :: "json \<Rightarrow> bool" where
  "truthy JUndefined = False"
| "truthy JNull = False"
| "truthy (JBool b) = b"
| "truthy (JNum s) = (s \<noteq> ''0'' \<and> s \<noteq> ''NaN'')"
| "truthy (JStr s) = (s \<noteq> [])"
| "truthy (JArr xs) = True"
| "truthy (JObj kvs) = True"

text \<open>
  Property read \<^verbatim>\<open>v.k\<close> for the keys the library reads (\<^verbatim>\<open>data\<close>,
  \<^verbatim>\<open>user\<close>, \<^verbatim>\<open>id\<close>): a TypeError on \<^verbatim>\<open>undefined\<close> and
  \<^verbatim>\<open>null\<close>, the own property of an object, \<^verbatim>\<open>undefined\<close> otherwise.
\<close>

fun js_get :: "json \<Rightarrow> string \<Rightarrow> js_error + json" where
  "js_get JUndefined k = Inl (cannot_read ''undefined'' k)"
| "js_get JNull k = Inl (cannot_read ''null'' k)"
| "js_get (JObj kvs) k = Inr (case map_of kvs k of None \<Rightarrow> JUndefined | Some v \<Rightarrow> v)"
| "js_get v k = Inr JUndefined"

text \<open>
  Interpolation \<^verbatim>\<open>${v}\<close> in a template literal.  A parsed object that carries its
  own \<^verbatim>\<open>toString\<close> entry has no callable conversion left and raises.
\<close>

fun js_ToString :: "json \<Rightarrow> js_error + string"
  and js_join :: "json list \<Rightarrow> js_error + string" where
  "js_ToString JUndefined = Inr ''undefined''"
| "js_ToString JNull = Inr ''null''"
| "js_ToString (JBool b) = Inr (if b then ''true'' else ''false'')"
| "js_ToString (JNum s) = Inr s"
| "js_ToString (JStr s) = Inr s"
| "js_ToString (JArr xs) = js_join xs"
| "js_ToString (JObj kvs) =
     (if ''toString'' \<in> fst ` set kvs
      then Inl (TypeError ''Cannot convert object to primitive value'')
      else Inr ''[object Object]'')"
| "js_join [] = Inr []"
| "js_join (x # xs) =
     (case (if x = JNull \<or> x = JUndefined then Inr [] else js_ToString x) of
        Inl e \<Rightarrow> Inl e
      | Inr s \<Rightarrow>
          (if xs = [] then Inr s
           else case js_join xs of Inl e \<Rightarrow> Inl e | Inr t \<Rightarrow> Inr (s @ '','' @ t)))"

text \<open>
  A template literal with one substitution, \<^verbatim>\<open>`lead${v}rest`\<close>: it raises when
  the conversion of \<open>v\<close> does.
\<close>

definition template :: "string \<Rightarrow> json \<Rightarrow> string \<Rightarrow> js_error + string" where
  "template lead v rest = bind_result (js_ToString v) (\<lambda>s. Inr (lead @ s @ rest))"

text \<open>\<^verbatim>\<open>a || b\<close>\<close>

definition js_or :: "json \<Rightarrow> json \<Rightarrow> json" where
  "js_or a b = (if truthy a then a else b)"

text \<open>
  The call \<^verbatim>\<open>v.split(sep)\<close> on a parsed value, \<open>what\<close> being the expression as
  the source writes it: only a string has the method; a property named
  \<^verbatim>\<open>split\<close> of a parsed object is never a function.
\<close>

fun split_call :: "string \<Rightarrow> json \<Rightarrow> string \<Rightarrow> js_error + string list" where
  "split_call what (JStr s) sep = Inr (js_split sep s)"
| "split_call what JUndefined sep = Inl (cannot_read ''undefined'' ''split'')"
| "split_call what JNull sep = Inl (cannot_read ''null'' ''split'')"
| "split_call what v sep = Inl (TypeError (what @ ''.split is not a function''))"

section \<open>The automation library\<close>

subsection \<open>\<^verbatim>\<open>parseCookieString\<close>\<close>

text \<open>
  The parsed cookies are the own properties of a fresh object, here a map.  Assigning
  the key \<^verbatim>\<open>__proto__\<close> a string does not create a property.
\<close>

definition object_set :: "(string \<rightharpoonup> string) \<Rightarrow> string \<Rightarrow> string \<Rightarrow> (string \<rightharpoonup> string)" where
  "object_set obj k v = (if k = ''__proto__'' then obj else obj(k \<mapsto> v))"

text \<open>
  The callback of \<^verbatim>\<open>forEach\<close>: \<^verbatim>\<open>const [key, value] = part.split('=')\<close> takes the
  first two pieces and drops every further one; a missing piece is \<^verbatim>\<open>undefined\<close>,
  which is falsy as the empty string is.
\<close>

definition cookie_part :: "(string \<rightharpoonup> string) \<Rightarrow> string \<Rightarrow> (string \<rightharpoonup> string)" where
  "cookie_part cookies part =
     (let pieces = js_split ''='' part in
      case (js_index pieces 0, js_index pieces 1) of
        (Some key, Some val) \<Rightarrow>
          if key \<noteq> [] \<and> val \<noteq> []
          then object_set cookies (js_trim key) (js_trim val)
          else cookies
      | _ \<Rightarrow> cookies)"

definition parseCookieString :: "string \<Rightarrow> (string \<rightharpoonup> string)" where
  "parseCookieString cookieStr = foldl cookie_part Map.empty (js_split ''; '' cookieStr)"

text \<open>
  The library functions call \<^verbatim>\<open>parseCookieString(cookieStr)\<close> on their argument
  as it is; on anything but a string the call raises.
\<close>

definition parseCookieString_call :: "json \<Rightarrow> js_error + (string \<rightharpoonup> string)" where
  "parseCookieString_call cookieStr =
     bind_result (split_call ''cookieStr'' cookieStr ''; '') (\<lambda>parts.
     Inr (foldl cookie_part Map.empty parts))"

text \<open>\<^verbatim>\<open>cookies['csrftoken'] || ''\<close>\<close>

definition csrftoken :: "(string \<rightharpoonup> string) \<Rightarrow> string" where
  "csrftoken cookies = or_default (cookies ''csrftoken'') []"

subsection \<open>\<^verbatim>\<open>shortcodeToMediaId\<close>\<close>

definition alphabet :: string where
  "alphabet = ''ABCDEFGHIJKLMNOPQRSTUVWXYZabcdefghijklmnopqrstuvwxyz0123456789-_''"

text \<open>One turn of the loop: \<^verbatim>\<open>mediaId = mediaId * 64 + alphabet.indexOf(c)\<close>.\<close>

definition mediaId_step :: "jsnum \<Rightarrow> char \<Rightarrow> jsnum" where
  "mediaId_step mediaId c = js_add (js_mul mediaId (Fin 64)) (Fin (indexOf alphabet c))"

text \<open>The value of \<^verbatim>\<open>mediaId\<close> when the loop ends.\<close>

definition mediaId_loop :: "string \<Rightarrow> jsnum" where
  "mediaId_loop shortcode = foldl mediaId_step (Fin 0) shortcode"

text \<open>
  The function returns \<^verbatim>\<open>mediaId.toString()\<close>.  The built-in rendering of a Number
  is a parameter.
\<close>

definition shortcodeToMediaId :: "(jsnum \<Rightarrow> string) \<Rightarrow> string \<Rightarrow> string" where
  "shortcodeToMediaId toString shortcode = toString (mediaId_loop shortcode)"

text \<open>
  The positional value in the words of the specification:
  \<open>\<Sum> digit\<^sub>i \<times> 64 ^ (n - 1 - i)\<close> over the exact integers.
\<close>

definition spec_positional_value :: "string \<Rightarrow> int" where
  "spec_positional_value s =
     (\<Sum>i < length s. indexOf alphabet (s ! i) * 64 ^ (length s - 1 - i))"

subsection \<open>The transport\<close>

text \<open>
  A request as handed to \<^verbatim>\<open>axios\<close>.  Header values and the fields of the body are
  passed as they are: most are strings, \<^verbatim>\<open>Cookie: cookieStr\<close>,
  \<^verbatim>\<open>Referer: postUrl\<close> and the comment fields are whatever the caller supplied.
\<close>

record http_request =
  req_method :: string
  req_url :: string
  req_body :: "(string \<times> json) list option"
  req_headers :: "(string \<times> json) list"

record http_response =
  resp_status :: int
  resp_data :: json

text \<open>
  \<^verbatim>\<open>axios\<close> answers a request, or rejects with an error (DNS, timeout, TLS, a
  status it does not accept, a header it cannot send).  The answer may depend on
  everything sent before.  The requests sent so far are kept as a trace.
\<close>

type_synonym trace = "http_request list"

record env =
  axios :: "trace \<Rightarrow> http_request \<Rightarrow> js_error + http_response"
  Number_toString :: "jsnum \<Rightarrow> string"

record ActionResult =
  success :: bool
  message :: string
  data :: "json option"

definition result :: "bool \<Rightarrow> string \<Rightarrow> ActionResult" where
  "result ok msg = \<lparr>success = ok, message = msg, data = None\<rparr>"

type_synonym outcome = "(js_error + ActionResult) \<times> trace"

text \<open>
  The shared shape
  \<^verbatim>\<open>try { ... } catch (error) { return { success: false, message: `intro${error.message}` } }\<close>.
  The words before the error text are themselves a template literal in
  \<^verbatim>\<open>followUser\<close> and \<^verbatim>\<open>unfollowUser\<close>; when it raises, the raise leaves the
  function.  It is evaluated only when the \<^verbatim>\<open>catch\<close> handler runs.
\<close>

definition catch_all :: "(js_error + string) \<Rightarrow> outcome \<Rightarrow> outcome" where
  "catch_all intro out =
     (case out of
        (Inl e, tr) \<Rightarrow>
          (case intro of
             Inl e' \<Rightarrow> (Inl e', tr)
           | Inr words \<Rightarrow> (Inr (result False (words @ error_message e)), tr))
      | (Inr r, tr) \<Rightarrow> (Inr r, tr))"

definition profile_headers ::
  "string \<Rightarrow> (string \<rightharpoonup> string) \<Rightarrow> json \<Rightarrow> (string \<times> json) list" where
  "profile_headers name cookies cookieStr =
     [(''User-Agent'', JStr ''Mozilla/5.0''),
      (''X-IG-App-ID'', JStr ''936619743392459''),
      (''X-CSRFToken'', JStr (csrftoken cookies)),
      (''Referer'', JStr (''https://www.instagram.com/'' @ name @ ''/'')),
      (''Origin'', JStr ''https://www.instagram.com''),
      (''X-Requested-With'', JStr ''XMLHttpRequest''),
      (''Cookie'', cookieStr)]"

definition friendship_headers ::
  "string \<Rightarrow> (string \<rightharpoonup> string) \<Rightarrow> json \<Rightarrow> (string \<times> json) list" where
  "friendship_headers name cookies cookieStr =
     [(''User-Agent'', JStr ''Mozilla/5.0''),
      (''X-IG-App-ID'', JStr ''936619743392459''),
      (''X-CSRFToken'', JStr (csrftoken cookies)),
      (''Referer'', JStr (''https://www.instagram.com/'' @ name @ ''/'')),
      (''Origin'', JStr ''https://www.instagram.com''),
      (''X-Requested-With'', JStr ''XMLHttpRequest''),
      (''Content-Type'', JStr ''application/x-www-form-urlencoded''),
      (''Cookie'', cookieStr)]"

definition post_headers ::
  "json \<Rightarrow> (string \<rightharpoonup> string) \<Rightarrow> json \<Rightarrow> (string \<times> json) list" where
  "post_headers postUrl cookies cookieStr =
     [(''User-Agent'', JStr ''Mozilla/5.0''),
      (''X-CSRFToken'', JStr (csrftoken cookies)),
      (''Referer'', postUrl),
      (''Content-Type'', JStr ''application/x-www-form-urlencoded''),
      (''Cookie'', cookieStr)]"

text \<open>
  In the next two, \<open>name\<close> is the username as the template literals render it;
  \<open>cookies\<close> is the parsed credential.
\<close>

definition profile_request :: "string \<Rightarrow> (string \<rightharpoonup> string) \<Rightarrow> json \<Rightarrow> http_request" where
  "profile_request name cookies cookieStr =
     \<lparr>req_method = ''GET'',
      req_url = ''https://www.instagram.com/api/v1/users/web_profile_info/?username='' @ name,
      req_body = None,
      req_headers = profile_headers name cookies cookieStr\<rparr>"

definition friendship_request ::
  "string \<Rightarrow> string \<Rightarrow> string \<Rightarrow> (string \<rightharpoonup> string) \<Rightarrow> json \<Rightarrow> http_request" where
  "friendship_request verb userId name cookies cookieStr =
     \<lparr>req_method = ''POST'',
      req_url = ''https://www.instagram.com/api/v1/friendships/'' @ verb @ ''/'' @ userId @ ''/'',
      req_body = Some [],
      req_headers = friendship_headers name cookies cookieStr\<rparr>"

definition post_request ::
  "string \<Rightarrow> (string \<times> json) list \<Rightarrow> json \<Rightarrow> (string \<rightharpoonup> string) \<Rightarrow> json
     \<Rightarrow> http_request" where
  "post_request url body postUrl cookies cookieStr =
     \<lparr>req_method = ''POST'', req_url = url, req_body = Some body,
      req_headers = post_headers postUrl cookies cookieStr\<rparr>"

subsection \<open>\<^verbatim>\<open>followUser\<close> and \<^verbatim>\<open>unfollowUser\<close>\<close>

text \<open>\<^verbatim>\<open>profileResponse.data.data.user.id\<close>, then its interpolation into the URL.\<close>

definition profile_user_id :: "http_response \<Rightarrow> js_error + string" where
  "profile_user_id profileResponse =
     bind_result (js_get (resp_data profileResponse) ''data'') (\<lambda>d.
     bind_result (js_get d ''user'') (\<lambda>u.
     bind_result (js_get u ''id'') js_ToString))"

text \<open>
  The \<^verbatim>\<open>try\<close> blocks of \<^verbatim>\<open>followUser\<close> and \<^verbatim>\<open>unfollowUser\<close> differ in the
  endpoint (\<^verbatim>\<open>create\<close>, \<^verbatim>\<open>destroy\<close>) and in the words of their messages only.
  The credential is parsed first.  Every use of \<^verbatim>\<open>username\<close> is an
  interpolation; the first one, in the URL of the profile request, is evaluated before
  anything is sent.
\<close>

definition friendship_try ::
  "env \<Rightarrow> string \<Rightarrow> string \<Rightarrow> string \<Rightarrow> json \<Rightarrow> json \<Rightarrow> trace \<Rightarrow> outcome" where
  "friendship_try E verb done_word fail_word username cookieStr tr =
     (case parseCookieString_call cookieStr of
        Inl e \<Rightarrow> (Inl e, tr)
      | Inr cookies \<Rightarrow>
     (case js_ToString username of
        Inl e \<Rightarrow> (Inl e, tr)
      | Inr name \<Rightarrow>
          (let rq1 = profile_request name cookies cookieStr; tr1 = tr @ [rq1] in
           case axios E tr rq1 of
             Inl e \<Rightarrow> (Inl e, tr1)
           | Inr profileResponse \<Rightarrow>
               if resp_status profileResponse \<noteq> 200
               then (Inr (result False (''Failed to get profile info for '' @ name)), tr1)
               else
                 (case profile_user_id profileResponse of
                    Inl e \<Rightarrow> (Inl e, tr1)
                  | Inr userId \<Rightarrow>
                      (let rq2 = friendship_request verb userId name cookies cookieStr;
                           tr2 = tr1 @ [rq2] in
                       case axios E tr1 rq2 of
                         Inl e \<Rightarrow> (Inl e, tr2)
                       | Inr response \<Rightarrow>
                           (Inr (result (resp_status response = 200)
                                   (if resp_status response = 200
                                    then ''Successfully '' @ done_word @ '' '' @ name
                                    else ''Failed to '' @ fail_word @ '' '' @ name)),
                            tr2))))))"

definition followUser_try :: "env \<Rightarrow> json \<Rightarrow> json \<Rightarrow> trace \<Rightarrow> outcome" where
  "followUser_try E username cookieStr tr =
     friendship_try E ''create'' ''followed'' ''follow'' username cookieStr tr"

definition followUser :: "env \<Rightarrow> json \<Rightarrow> json \<Rightarrow> trace \<Rightarrow> outcome" where
  "followUser E username cookieStr tr =
     catch_all (template ''Error following '' username '': '') (followUser_try E username cookieStr tr)"

definition unfollowUser_try :: "env \<Rightarrow> json \<Rightarrow> json \<Rightarrow> trace \<Rightarrow> outcome" where
  "unfollowUser_try E username cookieStr tr =
     friendship_try E ''destroy'' ''unfollowed'' ''unfollow'' username cookieStr tr"

definition unfollowUser :: "env \<Rightarrow> json \<Rightarrow> json \<Rightarrow> trace \<Rightarrow> outcome" where
  "unfollowUser E username cookieStr tr =
     catch_all (template ''Error unfollowing '' username '': '') (unfollowUser_try E username cookieStr tr)"

subsection \<open>\<^verbatim>\<open>likePost\<close>, \<^verbatim>\<open>unlikePost\<close>, \<^verbatim>\<open>commentPost\<close>\<close>

text \<open>\<^verbatim>\<open>postUrl.split('/p/')[1].split('/')[0].split('?')[0]\<close>\<close>

definition extract_shortcode :: "json \<Rightarrow> js_error + string option" where
  "extract_shortcode postUrl =
     bind_result (split_call ''postUrl'' postUrl ''/p/'') (\<lambda>a.
     bind_result (split_method (js_index a 1) ''/'') (\<lambda>b.
     bind_result (split_method (js_index b 0) ''?'') (\<lambda>c.
     Inr (js_index c 0))))"

text \<open>Iterating over \<^verbatim>\<open>undefined\<close> in \<^verbatim>\<open>shortcodeToMediaId\<close> raises.\<close>

fun shortcodeToMediaId_call :: "(jsnum \<Rightarrow> string) \<Rightarrow> string option \<Rightarrow> js_error + string" where
  "shortcodeToMediaId_call toString None = Inl (TypeError ''shortcode is not iterable'')"
| "shortcodeToMediaId_call toString (Some s) = Inr (shortcodeToMediaId toString s)"

text \<open>
  The \<^verbatim>\<open>try\<close> blocks of the three functions have one shape: the credential
  is parsed, then the inner \<^verbatim>\<open>try\<close> around the extraction, the media identifier,
  one POST.  They differ in the URL built from the media identifier, in the request body
  and in the words of their messages.
\<close>

definition media_try ::
  "env \<Rightarrow> (string \<Rightarrow> string) \<Rightarrow> (string \<times> json) list \<Rightarrow> string \<Rightarrow> string \<Rightarrow> json \<Rightarrow> json
     \<Rightarrow> trace \<Rightarrow> outcome" where
  "media_try E url_of body done_words fail_words postUrl cookieStr tr =
     (case parseCookieString_call cookieStr of
        Inl e \<Rightarrow> (Inl e, tr)
      | Inr cookies \<Rightarrow>
     (case extract_shortcode postUrl of
        Inl e \<Rightarrow> (Inr (result False ''Invalid post URL format''), tr)
      | Inr shortcode \<Rightarrow>
          (case shortcodeToMediaId_call (Number_toString E) shortcode of
             Inl e \<Rightarrow> (Inl e, tr)
           | Inr mediaId \<Rightarrow>
               (let rq = post_request (url_of mediaId) body postUrl cookies cookieStr;
                    tr1 = tr @ [rq] in
                case axios E tr rq of
                  Inl e \<Rightarrow> (Inl e, tr1)
                | Inr response \<Rightarrow>
                    (case template (if resp_status response = 200
                                    then ''Successfully '' @ done_words
                                    else ''Failed to '' @ fail_words) postUrl [] of
                       Inl e \<Rightarrow> (Inl e, tr1)
                     | Inr msg \<Rightarrow> (Inr (result (resp_status response = 200) msg), tr1))))))"

definition likePost_try :: "env \<Rightarrow> json \<Rightarrow> json \<Rightarrow> trace \<Rightarrow> outcome" where
  "likePost_try E postUrl cookieStr tr =
     media_try E (\<lambda>mediaId. ''https://www.instagram.com/web/likes/'' @ mediaId @ ''/like/'') []
       ''liked post: '' ''like post: '' postUrl cookieStr tr"

definition likePost :: "env \<Rightarrow> json \<Rightarrow> json \<Rightarrow> trace \<Rightarrow> outcome" where
  "likePost E postUrl cookieStr tr =
     catch_all (Inr ''Error liking post: '') (likePost_try E postUrl cookieStr tr)"

definition unlikePost_try :: "env \<Rightarrow> json \<Rightarrow> json \<Rightarrow> trace \<Rightarrow> outcome" where
  "unlikePost_try E postUrl cookieStr tr =
     media_try E (\<lambda>mediaId. ''https://www.instagram.com/web/likes/'' @ mediaId @ ''/unlike/'') []
       ''unliked post: '' ''unlike post: '' postUrl cookieStr tr"

definition unlikePost :: "env \<Rightarrow> json \<Rightarrow> json \<Rightarrow> trace \<Rightarrow> outcome" where
  "unlikePost E postUrl cookieStr tr =
     catch_all (Inr ''Error unliking post: '') (unlikePost_try E postUrl cookieStr tr)"

definition commentPost_try :: "env \<Rightarrow> json \<Rightarrow> json \<Rightarrow> json \<Rightarrow> trace \<Rightarrow> outcome" where
  "commentPost_try E postUrl commentText cookieStr tr =
     media_try E (\<lambda>mediaId. ''https://www.instagram.com/web/comments/'' @ mediaId @ ''/add/'')
       [(''comment_text'', commentText)]
       ''commented on post: '' ''comment on post: '' postUrl cookieStr tr"

definition commentPost :: "env \<Rightarrow> json \<Rightarrow> json \<Rightarrow> json \<Rightarrow> trace \<Rightarrow> outcome" where
  "commentPost E postUrl commentText cookieStr tr =
     catch_all (Inr ''Error commenting on post: '') (commentPost_try E postUrl commentText cookieStr tr)"

subsection \<open>\<^verbatim>\<open>deleteComment\<close>, \<^verbatim>\<open>getInstagramProfileInfo\<close>, \<^verbatim>\<open>removeDuplicateAccounts\<close>\<close>

text \<open>
  \<^verbatim>\<open>commentId\<close> is interpolated into the URL before anything is sent, and goes into
  the body as it is.
\<close>

definition deleteComment_try :: "env \<Rightarrow> json \<Rightarrow> json \<Rightarrow> json \<Rightarrow> trace \<Rightarrow> outcome" where
  "deleteComment_try E postUrl commentId cookieStr tr =
     (case parseCookieString_call cookieStr of
        Inl e \<Rightarrow> (Inl e, tr)
      | Inr cookies \<Rightarrow>
     (case js_ToString commentId of
        Inl e \<Rightarrow> (Inl e, tr)
      | Inr cid \<Rightarrow>
          (let rq = post_request (''https://www.instagram.com/web/comments/'' @ cid @ ''/delete/'')
                      [(''comment_id'', commentId)] postUrl cookies cookieStr;
               tr1 = tr @ [rq] in
           case axios E tr rq of
             Inl e \<Rightarrow> (Inl e, tr1)
           | Inr response \<Rightarrow>
               (Inr (result (resp_status response = 200)
                       (if resp_status response = 200
                        then ''Successfully deleted comment: '' @ cid
                        else ''Failed to delete comment: '' @ cid)),
                tr1))))"

definition deleteComment :: "env \<Rightarrow> json \<Rightarrow> json \<Rightarrow> json \<Rightarrow> trace \<Rightarrow> outcome" where
  "deleteComment E postUrl commentId cookieStr tr =
     catch_all (Inr ''Error deleting comment: '') (deleteComment_try E postUrl commentId cookieStr tr)"

definition getInstagramProfileInfo_try :: "env \<Rightarrow> json \<Rightarrow> json \<Rightarrow> trace \<Rightarrow> outcome" where
  "getInstagramProfileInfo_try E username cookieStr tr =
     (case parseCookieString_call cookieStr of
        Inl e \<Rightarrow> (Inl e, tr)
      | Inr cookies \<Rightarrow>
     (case js_ToString username of
        Inl e \<Rightarrow> (Inl e, tr)
      | Inr name \<Rightarrow>
          (let rq = profile_request name cookies cookieStr; tr1 = tr @ [rq];
               failed = result False (''Failed to retrieve profile info for '' @ name) in
           case axios E tr rq of
             Inl e \<Rightarrow> (Inl e, tr1)
           | Inr response \<Rightarrow>
               if resp_status response \<noteq> 200 then (Inr failed, tr1)
               else
                 (case js_get (resp_data response) ''data'' of
                    Inl e \<Rightarrow> (Inl e, tr1)
                  | Inr d \<Rightarrow>
                      if \<not> truthy d then (Inr failed, tr1)
                      else
                        (case js_get d ''user'' of
                           Inl e \<Rightarrow> (Inl e, tr1)
                         | Inr u \<Rightarrow>
                             if truthy u
                             then (Inr \<lparr>success = True,
                                        message = ''Successfully retrieved profile info for '' @ name,
                                        data = Some u\<rparr>, tr1)
                             else (Inr failed, tr1))))))"

definition getInstagramProfileInfo :: "env \<Rightarrow> json \<Rightarrow> json \<Rightarrow> trace \<Rightarrow> outcome" where
  "getInstagramProfileInfo E username cookieStr tr =
     catch_all (Inr ''Error getting profile info: '') (getInstagramProfileInfo_try E username cookieStr tr)"

definition removeDuplicateAccounts :: "json \<Rightarrow> trace \<Rightarrow> outcome" where
  "removeDuplicateAccounts cookieStr tr =
     (Inr (result True ''Duplicate account check completed. No duplicates found.''), tr)"

section \<open>The in-memory storage\<close>

text \<open>
  \<^verbatim>\<open>MemStorage\<close> keeps JavaScript Maps, which iterate in insertion order: each is an
  association list with unique keys.  Only the collections the dispatcher reaches are
  modelled.  Every \<^verbatim>\<open>new Date()\<close> is an explicit argument (milliseconds).
\<close>

fun map_set :: "('k \<times> 'v) list \<Rightarrow> 'k \<Rightarrow> 'v \<Rightarrow> ('k \<times> 'v) list" where
  "map_set [] k v = [(k, v)]"
| "map_set ((k', v') # kvs) k v =
     (if k' = k then (k, v) # kvs else (k', v') # map_set kvs k v)"

record Cookie =
  cookie_id :: nat
  cookie_userId :: nat
  cookie_name :: string
  cookieString :: string
  cookie_createdAt :: int

datatype log_status = Pending | Success | Failed

record LogEntry =
  log_userId :: nat
  log_type :: json
  accountUsername :: json
  action :: string
  status :: log_status

record ActivityLog = LogEntry +
  log_id :: nat
  createdAt :: int
  updatedAt :: "int option"

record MemStorage =
  cookies :: "(nat \<times> Cookie) list"
  cookieId :: nat
  activityLogs :: "(nat \<times> ActivityLog) list"
  logId :: nat

text \<open>The constructor: empty collections, identifiers starting at 1.\<close>

definition MemStorage_new :: MemStorage where
  "MemStorage_new = \<lparr>cookies = [], cookieId = 1, activityLogs = [], logId = 1\<rparr>"

definition getCookiesByUserId :: "MemStorage \<Rightarrow> nat \<Rightarrow> Cookie list" where
  "getCookiesByUserId st userId =
     filter (\<lambda>cookie. cookie_userId cookie = userId) (map snd (cookies st))"


text \<open>\<^verbatim>\<open>xs.slice(0, end)\<close>: a negative end counts from the end of the array.\<close>

definition js_slice0 :: "'a list \<Rightarrow> int \<Rightarrow> 'a list" where
  "js_slice0 xs stop =
     (let len = int (length xs);
          final = (if stop < 0 then max (len + stop) 0 else min stop len)
      in take (nat final) xs)"

text \<open>
  \<^verbatim>\<open>logs.sort((a, b) => b.createdAt.getTime() - a.createdAt.getTime())\<close>: the sort is
  stable, as \<^const>\<open>sort_key\<close> is.
\<close>

definition getActivityLogsByUserId :: "MemStorage \<Rightarrow> nat \<Rightarrow> int \<Rightarrow> ActivityLog list" where
  "getActivityLogsByUserId st userId limit =
     js_slice0
       (sort_key (\<lambda>l. - createdAt l)
          (filter (\<lambda>l. log_userId l = userId) (map snd (activityLogs st))))
       limit"

text \<open>The parameter default \<^verbatim>\<open>limit = 50\<close>.\<close>

definition getActivityLogsByUserId_default :: "MemStorage \<Rightarrow> nat \<Rightarrow> ActivityLog list" where
  "getActivityLogsByUserId_default st userId = getActivityLogsByUserId st userId 50"

definition createActivityLog :: "MemStorage \<Rightarrow> int \<Rightarrow> LogEntry \<Rightarrow> ActivityLog \<times> MemStorage" where
  "createActivityLog st now log =
     (let i = logId st;
          newLog = \<lparr>log_userId = log_userId log, log_type = log_type log,
                    accountUsername = accountUsername log, action = action log,
                    status = status log, log_id = i, createdAt = now, updatedAt = None\<rparr>
      in (newLog, st\<lparr>logId := i + 1, activityLogs := map_set (activityLogs st) i newLog\<rparr>))"

text \<open>
  \<^verbatim>\<open>updateActivityLog(id, updates)\<close>; the dispatcher always passes
  \<^verbatim>\<open>{ status: ... }\<close>.  \<open>None\<close> stands for the \<^verbatim>\<open>false\<close> returned for an
  unknown id.
\<close>

definition updateActivityLog ::
  "MemStorage \<Rightarrow> int \<Rightarrow> nat \<Rightarrow> log_status \<Rightarrow> ActivityLog option \<times> MemStorage" where
  "updateActivityLog st now i new_status =
     (case map_of (activityLogs st) i of
        None \<Rightarrow> (None, st)
      | Some log \<Rightarrow>
          (let updatedLog = log\<lparr>status := new_status, updatedAt := Some now\<rparr>
           in (Some updatedLog, st\<lparr>activityLogs := map_set (activityLogs st) i updatedLog\<rparr>)))"

section \<open>The dispatcher: \<^verbatim>\<open>POST /run\<close>\<close>

text \<open>
  The five properties the handler reads from the parsed request body.  Nothing checks
  their types: each is any JSON value, or \<^verbatim>\<open>undefined\<close> when the property is
  missing.
\<close>

record request_body =
  req_type :: json
  username :: json
  postUrl :: json
  commentText :: json
  commentId :: json

text \<open>
  The reply: the HTTP status, the JSON payload and, for the handler of the outer
  \<^verbatim>\<open>catch\<close>, the \<^verbatim>\<open>error\<close> field.
\<close>

record reply =
  http_status :: nat
  payload :: ActionResult
  error_field :: "string option"

definition json_reply :: "nat \<Rightarrow> ActionResult \<Rightarrow> reply" where
  "json_reply code r = \<lparr>http_status = code, payload = r, error_field = None\<rparr>"

text \<open>The reply of the outer \<^verbatim>\<open>catch\<close>.\<close>

definition error_reply :: "js_error \<Rightarrow> reply" where
  "error_reply e =
     \<lparr>http_status = 500, payload = result False ''Error running automation'',
      error_field = Some (error_message e)\<rparr>"

definition outcome_status :: "ActionResult \<Rightarrow> log_status" where
  "outcome_status r = (if success r then Success else Failed)"

text \<open>
  Every \<^verbatim>\<open>case\<close> of the \<^verbatim>\<open>switch\<close> repeats the same block once its fields are
  checked: set \<^verbatim>\<open>logEntry.action\<close> (a template literal, \<open>rendered\<close>), create the
  log, await the library function, update the log with the outcome, \<^verbatim>\<open>break\<close> to
  \<^verbatim>\<open>res.json(result)\<close>.  A raise of the template literal or of the awaited function
  leaves the block for the outer \<^verbatim>\<open>catch\<close>.  The clock reads \<open>t1\<close> when the entry
  is created and \<open>t2\<close> when it is updated.
\<close>

definition log_and_invoke ::
  "int \<Rightarrow> int \<Rightarrow> LogEntry \<Rightarrow> js_error + string \<Rightarrow> (trace \<Rightarrow> outcome) \<Rightarrow> MemStorage \<times> trace
     \<Rightarrow> reply \<times> MemStorage \<times> trace" where
  "log_and_invoke t1 t2 logEntry rendered operation w =
     (case rendered of
        Inl e \<Rightarrow> (error_reply e, w)
      | Inr act \<Rightarrow>
          (case w of (st, tr) \<Rightarrow>
             (case createActivityLog st t1 (logEntry\<lparr>action := act\<rparr>) of (activityLog, st1) \<Rightarrow>
                (case operation tr of
                   (Inl e, tr') \<Rightarrow> (error_reply e, st1, tr')
                 | (Inr r, tr') \<Rightarrow>
                     (json_reply 200 r,
                      snd (updateActivityLog st1 t2 (log_id activityLog) (outcome_status r)), tr')))))"

text \<open>
  The handler, for the authenticated user \<open>userId\<close>.  The credential store holds
  strings.  \<^verbatim>\<open>switch (type)\<close> compares with \<^verbatim>\<open>===\<close>: only the string
  itself selects a \<^verbatim>\<open>case\<close>.
\<close>

definition run ::
  "env \<Rightarrow> int \<Rightarrow> int \<Rightarrow> nat \<Rightarrow> request_body \<Rightarrow> MemStorage \<times> trace \<Rightarrow> reply \<times> MemStorage \<times> trace" where
  "run E t1 t2 userId body w =
     (case getCookiesByUserId (fst w) userId of
        [] \<Rightarrow>
          (json_reply 400
             (result False ''No cookies available. Please add an account or cookie first.''), w)
      | cookie # _ \<Rightarrow>
          (let cookieValue = JStr (cookieString cookie);
               logEntry = \<lparr>log_userId = userId, log_type = req_type body,
                           accountUsername = js_or (username body) (JStr ''Unknown''),
                           action = ''Pending'', status = Pending\<rparr>
           in
           if req_type body = JStr ''follow'' then
             (if \<not> truthy (username body)
              then (json_reply 400 (result False ''Username is required''), w)
              else log_and_invoke t1 t2 logEntry (template ''Followed @'' (username body) [])
                     (followUser E (username body) cookieValue) w)
           else if req_type body = JStr ''unfollow'' then
             (if \<not> truthy (username body)
              then (json_reply 400 (result False ''Username is required''), w)
              else log_and_invoke t1 t2 logEntry (template ''Unfollowed @'' (username body) [])
                     (unfollowUser E (username body) cookieValue) w)
           else if req_type body = JStr ''like'' then
             (if \<not> truthy (postUrl body)
              then (json_reply 400 (result False ''Post URL is required''), w)
              else log_and_invoke t1 t2 logEntry (template ''Liked post: '' (postUrl body) [])
                     (likePost E (postUrl body) cookieValue) w)
           else if req_type body = JStr ''unlike'' then
             (if \<not> truthy (postUrl body)
              then (json_reply 400 (result False ''Post URL is required''), w)
              else log_and_invoke t1 t2 logEntry (template ''Unliked post: '' (postUrl body) [])
                     (unlikePost E (postUrl body) cookieValue) w)
           else if req_type body = JStr ''comment'' then
             (if \<not> truthy (postUrl body) \<or> \<not> truthy (commentText body)
              then (json_reply 400 (result False ''Post URL and comment text are required''), w)
              else log_and_invoke t1 t2 logEntry (template ''Commented on post: '' (postUrl body) [])
                     (commentPost E (postUrl body) (commentText body) cookieValue) w)
           else if req_type body = JStr ''delete_comment'' then
             (if \<not> truthy (commentId body)
              then (json_reply 400 (result False ''Comment ID is required''), w)
              else log_and_invoke t1 t2 logEntry (template ''Deleted comment: '' (commentId body) [])
                     (deleteComment E (js_or (postUrl body) (JStr [])) (commentId body) cookieValue) w)
           else if req_type body = JStr ''profile_info'' then
             (if \<not> truthy (username body)
              then (json_reply 400 (result False ''Username is required''), w)
              else log_and_invoke t1 t2 logEntry (template ''Retrieved profile info: @'' (username body) [])
                     (getInstagramProfileInfo E (username body) cookieValue) w)
           else if req_type body = JStr ''duplicates'' then
             log_and_invoke t1 t2 logEntry (Inr ''Removed duplicate accounts'')
               (removeDuplicateAccounts cookieValue) w
           else (json_reply 200 (result False ''Unknown automation type''), w)))"

section \<open>Notions used to state the properties\<close>

text \<open>
  In a segment of a cookie string: the text before the first \<^verbatim>\<open>=\<close>, and the text
  between the first \<^verbatim>\<open>=\<close> and the second (or the end).
\<close>

definition cookie_key :: "string \<Rightarrow> string" where
  "cookie_key part = takeWhile (\<lambda>x. x \<noteq> CHR ''='') part"

definition cookie_value :: "string \<Rightarrow> string" where
  "cookie_value part =
     takeWhile (\<lambda>x. x \<noteq> CHR ''='') (tl (dropWhile (\<lambda>x. x \<noteq> CHR ''='') part))"

text \<open>The log collection is well formed: every key is below the next identifier.\<close>

definition storage_ok :: "MemStorage \<Rightarrow> bool" where
  "storage_ok st = list_all (\<lambda>kv. fst kv < logId st) (activityLogs st)"

text \<open>
  A request that passes the checks of its \<^verbatim>\<open>case\<close>: its kind has a \<^verbatim>\<open>case\<close>
  and the fields that \<^verbatim>\<open>case\<close> checks are truthy.
\<close>

definition dispatchable :: "request_body \<Rightarrow> bool" where
  "dispatchable body =
     (req_type body \<in> {JStr ''follow'', JStr ''unfollow'', JStr ''profile_info''}
        \<and> truthy (username body)
      \<or> req_type body \<in> {JStr ''like'', JStr ''unlike''} \<and> truthy (postUrl body)
      \<or> req_type body = JStr ''comment'' \<and> truthy (postUrl body) \<and> truthy (commentText body)
      \<or> req_type body = JStr ''delete_comment'' \<and> truthy (commentId body)
      \<or> req_type body = JStr ''duplicates'')"

text \<open>
  The action text of a request, as the \<^verbatim>\<open>case\<close> of its kind words it: the text, or
  the error raised by rendering the field into it.
\<close>

definition action_text :: "request_body \<Rightarrow> js_error + string" where
  "action_text body =
     (if req_type body = JStr ''follow'' then template ''Followed @'' (username body) []
      else if req_type body = JStr ''unfollow'' then template ''Unfollowed @'' (username body) []
      else if req_type body = JStr ''like'' then template ''Liked post: '' (postUrl body) []
      else if req_type body = JStr ''unlike'' then template ''Unliked post: '' (postUrl body) []
      else if req_type body = JStr ''comment'' then template ''Commented on post: '' (postUrl body) []
      else if req_type body = JStr ''delete_comment'' then template ''Deleted comment: '' (commentId body) []
      else if req_type body = JStr ''profile_info''
        then template ''Retrieved profile info: @'' (username body) []
      else Inr ''Removed duplicate accounts'')"

text \<open>The \<^verbatim>\<open>logEntry\<close> object of the handler once its action is set.\<close>

definition pending_entry :: "nat \<Rightarrow> request_body \<Rightarrow> string \<Rightarrow> LogEntry" where
  "pending_entry userId body act =
     \<lparr>log_userId = userId, log_type = req_type body,
      accountUsername = js_or (username body) (JStr ''Unknown''),
      action = act, status = Pending\<rparr>"

text \<open>
  Among the requests sent between the traces \<open>tr\<close> and \<open>tr'\<close>, one was rejected by the
  transport with the error \<open>e\<close>.
\<close>

definition rejected_with :: "env \<Rightarrow> trace \<Rightarrow> trace \<Rightarrow> js_error \<Rightarrow> bool" where
  "rejected_with E tr tr' e =
     list_ex (\<lambda>i. axios E (take i tr') (tr' ! i) = Inl e) [length tr..<length tr']"

subsection \<open>Concrete inputs for the examples\<close>

function decimal :: "int \<Rightarrow> string" where
  "decimal n =
     (if n < 10 then [''0123456789'' ! nat n]
      else decimal (n div 10) @ [''0123456789'' ! nat (n mod 10)])"
  by pat_completeness auto
termination
  by (relation "measure nat") auto

declare decimal.simps [simp del]

text \<open>
  \<^verbatim>\<open>Number.prototype.toString\<close> on an integer-valued Number.  Its digits are the
  shortest decimal that reads back as the same double, the closest one to it when several
  are that short; \<open>shortest_value x p\<close> looks for it among the multiples of \<open>p\<close>, from
  the coarsest power of ten down.  The digits are written out in full below \<open>10 ^ 21\<close>
  and with an exponent from there on.
\<close>

function shortest_value :: "int \<Rightarrow> int \<Rightarrow> int" where
  "shortest_value x p =
     (if round_to_double ((x div p) * p) = Fin x \<and> round_to_double ((x div p) * p + p) = Fin x
      then (if x - (x div p) * p < (x div p) * p + p - x
               \<or> (x - (x div p) * p = (x div p) * p + p - x \<and> even (x div p))
            then (x div p) * p else (x div p) * p + p)
      else if round_to_double ((x div p) * p) = Fin x then (x div p) * p
      else if round_to_double ((x div p) * p + p) = Fin x then (x div p) * p + p
      else if p \<le> 1 then x
      else shortest_value x (p div 10))"
  by pat_completeness auto
termination
  by (relation "measure (\<lambda>(x, p). nat p)") auto

declare shortest_value.simps [simp del]

definition render_digits :: "int \<Rightarrow> string" where
  "render_digits v =
     (let ds = decimal v; n = length ds in
      if n \<le> 21 then ds
      else
        let sig = rev (dropWhile (\<lambda>c. c = CHR ''0'') (rev ds)) in
        hd sig # (if tl sig = [] then [] else CHR ''.'' # tl sig) @ ''e+'' @ decimal (int n - 1))"

definition render_positive :: "int \<Rightarrow> string" where
  "render_positive x = render_digits (shortest_value x (10 ^ (length (decimal x) - 1)))"

fun plain_toString :: "jsnum \<Rightarrow> string" where
  "plain_toString (Fin i) =
     (if i = 0 then ''0''
      else if i < 0 then CHR ''-'' # render_positive (- i)
      else render_positive i)"
| "plain_toString PosInf = ''Infinity''"
| "plain_toString NegInf = ''-Infinity''"
| "plain_toString NaN = ''NaN''"

text \<open>A transport that rejects every request, and one that answers every request.\<close>

definition offline_env :: env where
  "offline_env =
     \<lparr>axios = (\<lambda>h rq. Inl (TransportError ''getaddrinfo ENOTFOUND www.instagram.com'')),
      Number_toString = plain_toString\<rparr>"

definition online_env :: env where
  "online_env =
     \<lparr>axios = (\<lambda>h rq. Inr \<lparr>resp_status = 200,
          resp_data = JObj [(''data'', JObj [(''user'', JObj [(''id'', JStr ''55'')])])]\<rparr>),
      Number_toString = plain_toString\<rparr>"

text \<open>
  A storage with one credential of user 7 and one finished log entry, and requests of
  that user.
\<close>

definition example_storage :: MemStorage where
  "example_storage =
     \<lparr>cookies = [(1, \<lparr>cookie_id = 1, cookie_userId = 7, cookie_name = ''main'',
                       cookieString = ''csrftoken=abc123; sessionid=xyz'', cookie_createdAt = 5\<rparr>)],
      cookieId = 2,
      activityLogs = [(1, \<lparr>log_userId = 7, log_type = JStr ''like'', accountUsername = JStr ''Unknown'',
                           action = ''Liked post: https://example.com/p/ABC123/'', status = Success,
                           log_id = 1, createdAt = 8, updatedAt = Some 9\<rparr>)],
      logId = 2\<rparr>"

definition request_of :: "string \<Rightarrow> request_body" where
  "request_of kind =
     \<lparr>req_type = JStr kind, username = JUndefined, postUrl = JUndefined,
      commentText = JUndefined, commentId = JUndefined\<rparr>"

definition follow_alice :: request_body where
  "follow_alice = (request_of ''follow'')\<lparr>username := JStr ''alice''\<rparr>"



text \<open>A follow request whose username is the parsed object \<^verbatim>\<open>{"toString": 1}\<close>.\<close>

definition follow_unrenderable :: request_body where
  "follow_unrenderable = (request_of ''follow'')\<lparr>username := JObj [(''toString'', JNum ''1'')]\<rparr>"

text \<open>A storage with three log entries, two of them of user 7, created at 8 and at 12.\<close>

definition example_logs :: MemStorage where
  "example_logs =
     \<lparr>cookies = [], cookieId = 1,
      activityLogs =
        [(1, \<lparr>log_userId = 7, log_type = JStr ''like'', accountUsername = JStr ''Unknown'',
               action = ''Liked post: https://example.com/p/ABC123/'', status = Success,
               log_id = 1, createdAt = 8, updatedAt = Some 9\<rparr>),
         (2, \<lparr>log_userId = 3, log_type = JStr ''follow'', accountUsername = JStr ''bob'',
               action = ''Followed @bob'', status = Failed,
               log_id = 2, createdAt = 10, updatedAt = Some 11\<rparr>),
         (3, \<lparr>log_userId = 7, log_type = JStr ''follow'', accountUsername = JStr ''alice'',
               action = ''Followed @alice'', status = Pending,
               log_id = 3, createdAt = 12, updatedAt = None\<rparr>)],
      logId = 4\<rparr>"

section \<open>Properties of \<^verbatim>\<open>shortcodeToMediaId\<close>\<close>

lemma indexOf_from_miss: "c \<notin> set s \<Longrightarrow> indexOf_from i s c = - 1"
  by (induction s arbitrary: i) auto

lemma indexOf_from_hit:
  "c \<in> set s \<Longrightarrow> i \<le> indexOf_from i s c \<and> indexOf_from i s c < i + int (length s)"
proof (induction s arbitrary: i)
  case Nil
  then show ?case by simp
next
  case (Cons a s)
  show ?case
  proof (cases "a = c")
    case True
    then show ?thesis by simp
  next
    case False
    with Cons.prems have "c \<in> set s" by simp
    from Cons.IH [OF this, of "i + 1"] False show ?thesis by simp
  qed
qed

lemma mediaId_loop_snoc: "mediaId_loop (s @ [c]) = mediaId_step (mediaId_loop s) c"
  by (simp add: mediaId_loop_def)

lemma spec_positional_value_snoc:
  "spec_positional_value (s @ [c]) = 64 * spec_positional_value s + indexOf alphabet c"
proof -
  have "(\<Sum>i < length s. indexOf alphabet ((s @ [c]) ! i) * 64 ^ (length (s @ [c]) - 1 - i)) =
        (\<Sum>i < length s. 64 * (indexOf alphabet (s ! i) * 64 ^ (length s - 1 - i)))"
  proof (rule sum.cong)
    fix i assume "i \<in> {..<length s}"
    then have i: "i < length s" by simp
    then have "length (s @ [c]) - 1 - i = Suc (length s - 1 - i)" by simp
    with i show "indexOf alphabet ((s @ [c]) ! i) * 64 ^ (length (s @ [c]) - 1 - i) =
        64 * (indexOf alphabet (s ! i) * 64 ^ (length s - 1 - i))"
      by (simp add: nth_append)
  qed simp
  then show ?thesis
    by (simp add: spec_positional_value_def sum_distrib_left)
qed

lemma round_to_double_exact: "\<bar>n\<bar> < 2 ^ 53 \<Longrightarrow> round_to_double n = Fin n"
  by (simp add: round_to_double_def)

lemma indexOf_alphabet_range:
  "c \<in> set alphabet \<Longrightarrow> 0 \<le> indexOf alphabet c \<and> indexOf alphabet c < 64"
  using indexOf_from_hit [of c alphabet 0] by (simp add: indexOf_def) (simp add: alphabet_def)

lemma mediaId_step_exact:
  assumes "0 \<le> v" and "v < 64 ^ 7" and "0 \<le> d" and "d < 64" and "indexOf alphabet c = d"
  shows "mediaId_step (Fin v) c = Fin (64 * v + d)"
proof -
  have "(64::int) ^ 7 = 4398046511104"
    by simp
  with assms have v: "v < 4398046511104"
    by simp
  from assms(1) v have m: "\<bar>v * 64\<bar> < 2 ^ 53"
    by simp
  from assms(1,3,4) v have a: "\<bar>v * 64 + d\<bar> < 2 ^ 53"
    by simp
  have "js_mul (Fin v) (Fin 64) = Fin (v * 64)"
    using round_to_double_exact [OF m] by simp
  moreover have "js_add (Fin (v * 64)) (Fin d) = Fin (v * 64 + d)"
    using round_to_double_exact [OF a] by simp
  ultimately show ?thesis
    by (simp add: mediaId_step_def assms(5) mult.commute)
qed

lemma mediaId_loop_exact_aux:
  "set s \<subseteq> set alphabet \<Longrightarrow> length s \<le> 8 \<Longrightarrow>
   mediaId_loop s = Fin (spec_positional_value s)
   \<and> 0 \<le> spec_positional_value s \<and> spec_positional_value s < 64 ^ length s"
proof (induction s rule: rev_induct)
  case Nil
  then show ?case by (simp add: mediaId_loop_def spec_positional_value_def)
next
  case (snoc c s)
  then have ih: "mediaId_loop s = Fin (spec_positional_value s)"
    and lo: "0 \<le> spec_positional_value s" and hi: "spec_positional_value s < 64 ^ length s"
    and len: "length s \<le> 7" and c: "c \<in> set alphabet"
    by simp_all
  from indexOf_alphabet_range [OF c] have d: "0 \<le> indexOf alphabet c" "indexOf alphabet c < 64"
    by simp_all
  have "(64::int) ^ length s \<le> 64 ^ 7"
    using len by (intro power_increasing) simp_all
  with hi have b: "spec_positional_value s < 64 ^ 7"
    by (rule less_le_trans)
  have up: "64 * spec_positional_value s + indexOf alphabet c < 64 ^ Suc (length s)"
  proof -
    from hi have "spec_positional_value s + 1 \<le> 64 ^ length s" by simp
    then have "64 * (spec_positional_value s + 1) \<le> 64 * 64 ^ length s"
      by (rule mult_left_mono) simp
    with d(2) show ?thesis by simp
  qed
  have "mediaId_loop (s @ [c]) = Fin (64 * spec_positional_value s + indexOf alphabet c)"
    unfolding mediaId_loop_snoc ih
    by (rule mediaId_step_exact [OF lo b d refl])
  moreover have "0 \<le> 64 * spec_positional_value s + indexOf alphabet c"
    using lo d(1) by simp
  ultimately show ?case
    using up by (simp add: spec_positional_value_snoc)
qed

text \<open>
  On a short code of at most eight characters of the alphabet the loop is exact: every
  intermediate value is below \<open>64 ^ 8 = 2 ^ 48\<close>, which a double holds, and the result is
  the rendering of the base-64 positional value.
\<close>

theorem shortcodeToMediaId_exact_short:
  assumes "set s \<subseteq> set alphabet" and "length s \<le> 8"
  shows "shortcodeToMediaId toString s = toString (Fin (spec_positional_value s))"
  using mediaId_loop_exact_aux [OF assms] by (simp add: shortcodeToMediaId_def)

theorem shortcodeToMediaId_exact_short_witness:
  "set ''ABC123'' \<subseteq> set alphabet \<and> length ''ABC123'' \<le> 8
   \<and> spec_positional_value ''ABC123'' = 17522103
   \<and> shortcodeToMediaId plain_toString ''ABC123'' = ''17522103''"
proof -
  have a: "set ''ABC123'' \<subseteq> set alphabet"
    by (simp add: alphabet_def)
  have b: "length ''ABC123'' \<le> 8"
    by simp
  have p: "spec_positional_value ''ABC123'' = 17522103"
    by code_simp
  have d: "plain_toString (Fin 17522103) = ''17522103''"
    by code_simp
  from shortcodeToMediaId_exact_short [OF a b, of plain_toString]
  have c: "shortcodeToMediaId plain_toString ''ABC123'' = ''17522103''"
    unfolding p d .
  show ?thesis
    by (intro conjI a b p c)
qed

text \<open>
  Claim C3 (the function returns the exact base-64 positional value of every short code,
  also beyond the 64-bit range).  The loop accumulates in a double.  For the ten-character
  code \<^verbatim>\<open>BAAAAAAAAB\<close> the positional value is \<open>2 ^ 54 + 1\<close>, which no double
  represents; the loop ends with \<open>2 ^ 54\<close> and the function returns the rendering of
  that.
\<close>

theorem shortcodeToMediaId_loses_precision:
  "shortcodeToMediaId toString ''BAAAAAAAAB'' = toString (Fin 18014398509481984)
   \<and> spec_positional_value ''BAAAAAAAAB'' = 18014398509481985"
proof -
  have "mediaId_loop ''BAAAAAAAAB'' = Fin 18014398509481984"
    by code_simp
  moreover have "spec_positional_value ''BAAAAAAAAB'' = 18014398509481985"
    by code_simp
  ultimately show ?thesis
    by (simp add: shortcodeToMediaId_def)
qed

text \<open>
  Claim C4 (changing one character of a short code changes the identifier).  The codes
  \<^verbatim>\<open>BAAAAAAAAA\<close> and \<^verbatim>\<open>BAAAAAAAAB\<close> differ in their last character and get the
  same identifier, whatever the rendering of the Number is: the rounding of claim C3.
\<close>

theorem shortcodeToMediaId_collision:
  "shortcodeToMediaId toString ''BAAAAAAAAA'' = shortcodeToMediaId toString ''BAAAAAAAAB''"
proof -
  have "mediaId_loop ''BAAAAAAAAA'' = mediaId_loop ''BAAAAAAAAB''"
    by code_simp
  then show ?thesis
    by (simp add: shortcodeToMediaId_def)
qed

text \<open>
  Claim C10: the function has no error branch.  A character outside the alphabet is not
  found by \<^verbatim>\<open>indexOf\<close>, which answers \<open>- 1\<close>, and the loop adds that \<open>- 1\<close> as the
  character's digit: the result for \<open>s @ [c]\<close> is the rendering of
  \<open>mediaId * 64 + (- 1)\<close>.
\<close>

theorem shortcodeToMediaId_out_of_alphabet:
  assumes "c \<notin> set alphabet"
  shows "indexOf alphabet c = - 1
       \<and> mediaId_loop (s @ [c]) = js_add (js_mul (mediaId_loop s) (Fin 64)) (Fin (- 1))
       \<and> shortcodeToMediaId toString (s @ [c]) =
           toString (js_add (js_mul (mediaId_loop s) (Fin 64)) (Fin (- 1)))"
  using assms
  by (simp add: shortcodeToMediaId_def mediaId_loop_snoc mediaId_step_def indexOf_def indexOf_from_miss)

theorem shortcodeToMediaId_out_of_alphabet_witness:
  "CHR ''!'' \<notin> set alphabet
   \<and> indexOf alphabet CHR ''!'' = - 1
   \<and> mediaId_loop ''B!'' = Fin 63
   \<and> shortcodeToMediaId plain_toString ''B!'' = ''63''"
proof -
  have h: "CHR ''!'' \<notin> set alphabet"
    by (simp add: alphabet_def)
  have r: "js_add (js_mul (mediaId_loop ''B'') (Fin 64)) (Fin (- 1)) = Fin 63"
    by code_simp
  have d: "plain_toString (Fin 63) = ''63''"
    by code_simp
  have s: "''B'' @ [CHR ''!''] = ''B!''"
    by simp
  from shortcodeToMediaId_out_of_alphabet [OF h, of "''B''" plain_toString]
  have "indexOf alphabet CHR ''!'' = - 1 \<and> mediaId_loop ''B!'' = Fin 63
      \<and> shortcodeToMediaId plain_toString ''B!'' = ''63''"
    unfolding r d s .
  with h show ?thesis by (rule conjI)
qed

section \<open>Properties of \<^verbatim>\<open>parseCookieString\<close>\<close>

lemma js_split_from_char:
  "js_split_from [c] acc s =
     (rev acc @ takeWhile (\<lambda>x. x \<noteq> c) s)
     # (if c \<in> set s then js_split_from [c] [] (tl (dropWhile (\<lambda>x. x \<noteq> c) s)) else [])"
  by (induction s arbitrary: acc) auto

lemma js_split_char:
  "js_split [c] s =
     takeWhile (\<lambda>x. x \<noteq> c) s
     # (if c \<in> set s then js_split [c] (tl (dropWhile (\<lambda>x. x \<noteq> c) s)) else [])"
  using js_split_from_char [of c "[]" s] by (simp add: js_split_def)

lemma cookie_pieces:
  "js_index (js_split ''='' part) 0 = Some (cookie_key part)
   \<and> js_index (js_split ''='' part) 1 =
       (if CHR ''='' \<in> set part then Some (cookie_value part) else None)"
proof -
  let ?rest = "tl (dropWhile (\<lambda>x. x \<noteq> CHR ''='') part)"
  have 1: "js_split ''='' part =
      cookie_key part # (if CHR ''='' \<in> set part then js_split ''='' ?rest else [])"
    unfolding cookie_key_def by (rule js_split_char)
  have 2: "js_split ''='' ?rest =
      cookie_value part # (if CHR ''='' \<in> set ?rest then js_split ''='' (tl (dropWhile (\<lambda>x. x \<noteq> CHR ''='') ?rest)) else [])"
    unfolding cookie_value_def by (rule js_split_char)
  show ?thesis
    by (simp add: js_index_def 1) (simp add: 2)
qed

lemma cookie_part_eq:
  "cookie_part jar part =
     (if CHR ''='' \<in> set part \<and> cookie_key part \<noteq> [] \<and> cookie_value part \<noteq> []
      then object_set jar (js_trim (cookie_key part)) (js_trim (cookie_value part))
      else jar)"
  using cookie_pieces [of part] by (auto simp: cookie_part_def Let_def split: option.splits)

lemma foldl_cookie_part_origin:
  assumes "foldl cookie_part m parts k = Some v"
  shows "m k = Some v
       \<or> (\<exists>part \<in> set parts. CHR ''='' \<in> set part \<and> cookie_key part \<noteq> [] \<and> cookie_value part \<noteq> []
             \<and> k = js_trim (cookie_key part) \<and> v = js_trim (cookie_value part))"
  using assms
proof (induction parts arbitrary: m)
  case Nil
  then show ?case by simp
next
  case (Cons part parts)
  from Cons.prems have "foldl cookie_part (cookie_part m part) parts k = Some v"
    by simp
  from Cons.IH [OF this] show ?case
  proof
    assume "cookie_part m part k = Some v"
    then show ?thesis
      by (auto simp: cookie_part_eq object_set_def split: if_splits)
  next
    assume "\<exists>part \<in> set parts. CHR ''='' \<in> set part \<and> cookie_key part \<noteq> [] \<and> cookie_value part \<noteq> []
             \<and> k = js_trim (cookie_key part) \<and> v = js_trim (cookie_value part)"
    then show ?thesis by auto
  qed
qed

text \<open>
  Claim C9.  Every cookie the parser stores comes from a segment of the string (split on
  \<^verbatim>\<open>"; "\<close>) that contains \<^verbatim>\<open>=\<close>, with a non-empty text before the first
  \<^verbatim>\<open>=\<close> (the key) and a non-empty text between the first \<^verbatim>\<open>=\<close> and the second
  (the value); key and value are stored trimmed.  A segment is handled by exactly that
  rule, so what follows a second \<^verbatim>\<open>=\<close> is dropped: \<^verbatim>\<open>k=a=b\<close> stores
  \<^verbatim>\<open>a\<close> under \<^verbatim>\<open>k\<close>.
\<close>

theorem parseCookieString_segments:
  "(parseCookieString cookieStr k = Some v \<longrightarrow>
      (\<exists>part \<in> set (js_split ''; '' cookieStr).
          CHR ''='' \<in> set part \<and> cookie_key part \<noteq> [] \<and> cookie_value part \<noteq> []
          \<and> k = js_trim (cookie_key part) \<and> v = js_trim (cookie_value part)))
   \<and> cookie_part jar part =
       (if CHR ''='' \<in> set part \<and> cookie_key part \<noteq> [] \<and> cookie_value part \<noteq> []
        then object_set jar (js_trim (cookie_key part)) (js_trim (cookie_value part))
        else jar)
   \<and> cookie_value ''k=a=b'' = ''a''
   \<and> parseCookieString ''k=a=b'' = [''k'' \<mapsto> ''a'']"
proof (intro conjI impI)
  assume "parseCookieString cookieStr k = Some v"
  then show "\<exists>part \<in> set (js_split ''; '' cookieStr).
          CHR ''='' \<in> set part \<and> cookie_key part \<noteq> [] \<and> cookie_value part \<noteq> []
          \<and> k = js_trim (cookie_key part) \<and> v = js_trim (cookie_value part)"
    using foldl_cookie_part_origin [of Map.empty "js_split ''; '' cookieStr" k v]
    by (simp add: parseCookieString_def)
next
  show "cookie_part jar part =
       (if CHR ''='' \<in> set part \<and> cookie_key part \<noteq> [] \<and> cookie_value part \<noteq> []
        then object_set jar (js_trim (cookie_key part)) (js_trim (cookie_value part))
        else jar)"
    by (rule cookie_part_eq)
next
  show "cookie_value ''k=a=b'' = ''a''"
    by (simp add: cookie_value_def)
next
  show "parseCookieString ''k=a=b'' = [''k'' \<mapsto> ''a'']"
    by (simp add: parseCookieString_def js_split_def cookie_part_eq cookie_key_def cookie_value_def
          object_set_def js_trim_def is_js_whitespace_def)
qed

theorem parseCookieString_segments_witness:
  "parseCookieString ''csrftoken=abc123; k=a=b; =v; q; z='' ''k'' = Some ''a''
   \<and> js_split ''; '' ''csrftoken=abc123; k=a=b; =v; q; z='' = [''csrftoken=abc123'', ''k=a=b'', ''=v'', ''q'', ''z='']
   \<and> dom (parseCookieString ''csrftoken=abc123; k=a=b; =v; q; z='') = {''csrftoken'', ''k''}
   \<and> (\<exists>part. part \<in> set (js_split ''; '' ''csrftoken=abc123; k=a=b; =v; q; z='')
         \<and> CHR ''='' \<in> set part \<and> cookie_key part \<noteq> [] \<and> cookie_value part \<noteq> []
         \<and> ''k'' = js_trim (cookie_key part) \<and> ''a'' = js_trim (cookie_value part))"
proof -
  have p: "parseCookieString ''csrftoken=abc123; k=a=b; =v; q; z='' =
             [''csrftoken'' \<mapsto> ''abc123'', ''k'' \<mapsto> ''a'']"
    by (simp add: parseCookieString_def js_split_def cookie_part_eq cookie_key_def cookie_value_def
          object_set_def js_trim_def is_js_whitespace_def)
  have h: "parseCookieString ''csrftoken=abc123; k=a=b; =v; q; z='' ''k'' = Some ''a''"
    by (simp add: p)
  have s: "js_split ''; '' ''csrftoken=abc123; k=a=b; =v; q; z='' = [''csrftoken=abc123'', ''k=a=b'', ''=v'', ''q'', ''z='']"
    by (simp add: js_split_def)
  have d: "dom (parseCookieString ''csrftoken=abc123; k=a=b; =v; q; z='') = {''csrftoken'', ''k''}"
    by (auto simp: p)
  from parseCookieString_segments [of "''csrftoken=abc123; k=a=b; =v; q; z=''" "''k''" "''a''"] h
  have e: "\<exists>part. part \<in> set (js_split ''; '' ''csrftoken=abc123; k=a=b; =v; q; z='')
         \<and> CHR ''='' \<in> set part \<and> cookie_key part \<noteq> [] \<and> cookie_value part \<noteq> []
         \<and> ''k'' = js_trim (cookie_key part) \<and> ''a'' = js_trim (cookie_value part)"
    by blast
  show ?thesis
    by (intro conjI h s d e)
qed

section \<open>Properties of the storage and of the dispatcher\<close>

subsection \<open>Creating and updating a log entry\<close>

lemma map_of_map_set: "map_of (map_set kvs k v) k' = (if k' = k then Some v else map_of kvs k')"
  by (induction kvs) auto

lemma map_set_fresh: "k \<notin> fst ` set kvs \<Longrightarrow> map_set kvs k v = kvs @ [(k, v)]"
  by (induction kvs) auto

lemma map_set_last: "k \<notin> fst ` set kvs \<Longrightarrow> map_set (kvs @ [(k, v)]) k v' = kvs @ [(k, v')]"
  by (induction kvs) auto

lemma storage_ok_fresh: "storage_ok st \<Longrightarrow> logId st \<notin> fst ` set (activityLogs st)"
  by (auto simp: storage_ok_def list_all_iff)

lemma createActivityLog_fst:
  "fst (createActivityLog st now e) =
     \<lparr>log_userId = log_userId e, log_type = log_type e, accountUsername = accountUsername e,
      action = action e, status = status e, log_id = logId st, createdAt = now, updatedAt = None\<rparr>"
  by (simp add: createActivityLog_def Let_def)

lemma createActivityLog_logs:
  "storage_ok st \<Longrightarrow>
   activityLogs (snd (createActivityLog st now e)) =
     activityLogs st @ [(logId st, fst (createActivityLog st now e))]"
  by (simp add: createActivityLog_def Let_def map_set_fresh storage_ok_fresh)

lemma create_then_update_logs:
  assumes "storage_ok st"
  shows "activityLogs (snd (updateActivityLog (snd (createActivityLog st t1 e)) t2 (logId st) s)) =
     activityLogs st @ [(logId st, (fst (createActivityLog st t1 e))\<lparr>status := s, updatedAt := Some t2\<rparr>)]"
proof -
  let ?L = "fst (createActivityLog st t1 e)"
  let ?st1 = "snd (createActivityLog st t1 e)"
  have fresh: "logId st \<notin> fst ` set (activityLogs st)"
    by (rule storage_ok_fresh [OF assms])
  have logs1: "activityLogs ?st1 = activityLogs st @ [(logId st, ?L)]"
    by (rule createActivityLog_logs [OF assms])
  have found: "map_of (activityLogs ?st1) (logId st) = Some ?L"
    by (simp add: createActivityLog_def Let_def map_of_map_set)
  have "activityLogs (snd (updateActivityLog ?st1 t2 (logId st) s)) =
          map_set (activityLogs ?st1) (logId st) (?L\<lparr>status := s, updatedAt := Some t2\<rparr>)"
    by (simp add: updateActivityLog_def found Let_def)
  also have "\<dots> = activityLogs st @ [(logId st, ?L\<lparr>status := s, updatedAt := Some t2\<rparr>)]"
    unfolding logs1 by (rule map_set_last [OF fresh])
  finally show ?thesis .
qed

lemma create_then_update_rest:
  "cookies (snd (updateActivityLog (snd (createActivityLog st t1 e)) t2 (logId st) s)) = cookies st
   \<and> cookieId (snd (updateActivityLog (snd (createActivityLog st t1 e)) t2 (logId st) s)) = cookieId st
   \<and> logId (snd (updateActivityLog (snd (createActivityLog st t1 e)) t2 (logId st) s)) = logId st + 1"
  by (simp add: createActivityLog_def updateActivityLog_def Let_def map_of_map_set)

lemma create_then_update_ok:
  "storage_ok st \<Longrightarrow>
   storage_ok (snd (updateActivityLog (snd (createActivityLog st t1 e)) t2 (logId st) s))"
  unfolding storage_ok_def
  by (simp add: create_then_update_logs [unfolded storage_ok_def] create_then_update_rest)
     (auto simp: list_all_iff)

lemma parseCookieString_call_string:
  "parseCookieString_call (JStr s) = Inr (parseCookieString s)"
  by (simp add: parseCookieString_call_def parseCookieString_def bind_result_def)

lemma js_ToString_primitive:
  "js_ToString JUndefined = Inr ''undefined'' \<and> js_ToString JNull = Inr ''null''
   \<and> js_ToString (JBool b) = Inr (if b then ''true'' else ''false'')
   \<and> js_ToString (JNum n) = Inr n \<and> js_ToString (JStr s) = Inr s"
  by simp

lemma template_Inr:
  "template lead v rest = Inr act \<longleftrightarrow> (\<exists>s. js_ToString v = Inr s \<and> act = lead @ s @ rest)"
  by (auto simp: template_def bind_result_def split: sum.splits)

lemma template_Inl: "template lead v rest = Inl e \<longleftrightarrow> js_ToString v = Inl e"
  by (auto simp: template_def bind_result_def split: sum.splits)

lemma log_and_invoke_returns:
  assumes "operation tr = (Inr r, tr')"
  shows "log_and_invoke t1 t2 logEntry (Inr act) operation (st, tr) =
           (json_reply 200 r,
            snd (updateActivityLog (snd (createActivityLog st t1 (logEntry\<lparr>action := act\<rparr>))) t2
                   (logId st) (outcome_status r)),
            tr')"
proof -
  obtain L st1 where c: "createActivityLog st t1 (logEntry\<lparr>action := act\<rparr>) = (L, st1)"
    by (cases "createActivityLog st t1 (logEntry\<lparr>action := act\<rparr>)")
  have "log_id L = logId st"
    using createActivityLog_fst [of st t1 "logEntry\<lparr>action := act\<rparr>"] c by simp
  then show ?thesis
    using assms c by (simp add: log_and_invoke_def)
qed

text \<open>
  When the action text cannot be rendered, the block is left before the entry is
  created: the outer \<^verbatim>\<open>catch\<close> answers 500 and nothing else has happened.
\<close>

lemma log_and_invoke_unrendered:
  "log_and_invoke t1 t2 logEntry (Inl e) operation w = (error_reply e, w)"
  by (simp add: log_and_invoke_def)

text \<open>
  The block itself does not recover from a raise of the awaited function: the entry it
  created would stay pending and the outer \<^verbatim>\<open>catch\<close> would answer 500.  The
  handler relies on the library functions never raising on what it passes them.
\<close>

lemma log_and_invoke_raise:
  assumes "operation tr = (Inl e, tr')"
  shows "log_and_invoke t1 t2 logEntry (Inr act) operation (st, tr) =
           (error_reply e, snd (createActivityLog st t1 (logEntry\<lparr>action := act\<rparr>)), tr')"
  using assms by (simp add: log_and_invoke_def split: prod.splits)

subsection \<open>Transport faults inside the library functions\<close>

lemma rejected_with_same [simp]: "rejected_with E tr tr e = False"
  by (simp add: rejected_with_def)

lemma rejected_with_one [simp]: "rejected_with E tr (tr @ [rq]) e = (axios E tr rq = Inl e)"
  by (simp add: rejected_with_def)

lemma rejected_with_two [simp]:
  "rejected_with E tr (tr @ [rq1, rq2]) e =
     (axios E tr rq1 = Inl e \<or> axios E (tr @ [rq1]) rq2 = Inl e)"
proof -
  have "[length tr..<length tr + 2] = [length tr, Suc (length tr)]"
    by (simp add: upt_rec)
  then show ?thesis
    by (simp add: rejected_with_def nth_append)
qed

lemma friendship_try_fault:
  assumes "friendship_try E verb w1 w2 u cookieStr tr = (out, tr')"
    and "rejected_with E tr tr' e"
  shows "out = Inl e"
  using assms
  by (auto simp: friendship_try_def Let_def split: sum.splits if_splits)

lemma media_try_fault:
  assumes "media_try E url_of payld w1 w2 url cookieStr tr = (out, tr')"
    and "rejected_with E tr tr' e"
  shows "out = Inl e"
  using assms
  by (auto simp: media_try_def Let_def split: sum.splits if_splits)

lemma deleteComment_try_fault:
  assumes "deleteComment_try E url cid cookieStr tr = (out, tr')"
    and "rejected_with E tr tr' e"
  shows "out = Inl e"
  using assms
  by (auto simp: deleteComment_try_def Let_def split: sum.splits if_splits)

lemma getInstagramProfileInfo_try_fault:
  assumes "getInstagramProfileInfo_try E u cookieStr tr = (out, tr')"
    and "rejected_with E tr tr' e"
  shows "out = Inl e"
  using assms
  by (auto simp: getInstagramProfileInfo_try_def Let_def split: sum.splits if_splits)

lemma followUser_try_fault:
  assumes "followUser_try E u cookieStr tr = (out, tr')" and "rejected_with E tr tr' e"
  shows "out = Inl e"
  using assms unfolding followUser_try_def by (rule friendship_try_fault)

lemma unfollowUser_try_fault:
  assumes "unfollowUser_try E u cookieStr tr = (out, tr')" and "rejected_with E tr tr' e"
  shows "out = Inl e"
  using assms unfolding unfollowUser_try_def by (rule friendship_try_fault)

lemma likePost_try_fault:
  assumes "likePost_try E url cookieStr tr = (out, tr')" and "rejected_with E tr tr' e"
  shows "out = Inl e"
  using assms unfolding likePost_try_def by (rule media_try_fault)

lemma unlikePost_try_fault:
  assumes "unlikePost_try E url cookieStr tr = (out, tr')" and "rejected_with E tr tr' e"
  shows "out = Inl e"
  using assms unfolding unlikePost_try_def by (rule media_try_fault)

lemma commentPost_try_fault:
  assumes "commentPost_try E url words cookieStr tr = (out, tr')" and "rejected_with E tr tr' e"
  shows "out = Inl e"
  using assms unfolding commentPost_try_def by (rule media_try_fault)

subsection \<open>When the library functions raise\<close>

lemma catch_all_behaviour:
  assumes "\<And>out tr' e. body = (out, tr') \<Longrightarrow> rejected_with E tr tr' e \<Longrightarrow> out = Inl e"
  shows "\<exists>r tr'. catch_all (Inr intro) body = (Inr r, tr')
           \<and> (\<forall>e. rejected_with E tr tr' e \<or> fst body = Inl e
                  \<longrightarrow> r = result False (intro @ error_message e))"
proof (cases body)
  case (Pair out tr')
  show ?thesis
  proof (cases out)
    case (Inl e')
    have "e = e'" if "rejected_with E tr tr' e \<or> fst body = Inl e" for e
      using that assms [OF Pair, of e] Inl Pair by auto
    then show ?thesis
      using Pair Inl by (auto simp: catch_all_def)
  next
    case (Inr r)
    have "\<not> (rejected_with E tr tr' e \<or> fst body = Inl e)" for e
      using assms [OF Pair, of e] Inr Pair by auto
    then show ?thesis
      using Pair Inr by (auto simp: catch_all_def)
  qed
qed

lemma template_rendered:
  "js_ToString v = Inr s \<Longrightarrow> template lead v rest = Inr (lead @ s @ rest)"
  by (simp add: template_def bind_result_def)

lemma followUser_behaviour:
  assumes "js_ToString u = Inr name"
  shows "\<exists>r tr'. followUser E u cookieStr tr = (Inr r, tr')
     \<and> (\<forall>e. rejected_with E tr tr' e \<or> fst (followUser_try E u cookieStr tr) = Inl e
           \<longrightarrow> r = result False (''Error following '' @ name @ '': '' @ error_message e))"
proof -
  have "\<exists>r tr'. catch_all (Inr intro) (followUser_try E u cookieStr tr) = (Inr r, tr')
          \<and> (\<forall>e. rejected_with E tr tr' e \<or> fst (followUser_try E u cookieStr tr) = Inl e
                 \<longrightarrow> r = result False (intro @ error_message e))" for intro
    by (rule catch_all_behaviour) (rule followUser_try_fault)
  from this [of "''Error following '' @ name @ '': ''"] show ?thesis
    by (simp add: followUser_def template_rendered [OF assms])
qed

lemma unfollowUser_behaviour:
  assumes "js_ToString u = Inr name"
  shows "\<exists>r tr'. unfollowUser E u cookieStr tr = (Inr r, tr')
     \<and> (\<forall>e. rejected_with E tr tr' e \<or> fst (unfollowUser_try E u cookieStr tr) = Inl e
           \<longrightarrow> r = result False (''Error unfollowing '' @ name @ '': '' @ error_message e))"
proof -
  have "\<exists>r tr'. catch_all (Inr intro) (unfollowUser_try E u cookieStr tr) = (Inr r, tr')
          \<and> (\<forall>e. rejected_with E tr tr' e \<or> fst (unfollowUser_try E u cookieStr tr) = Inl e
                 \<longrightarrow> r = result False (intro @ error_message e))" for intro
    by (rule catch_all_behaviour) (rule unfollowUser_try_fault)
  from this [of "''Error unfollowing '' @ name @ '': ''"] show ?thesis
    by (simp add: unfollowUser_def template_rendered [OF assms])
qed

text \<open>
  A username that cannot be rendered raises in the \<^verbatim>\<open>try\<close> block before anything
  is sent, and again in the template literal of the \<^verbatim>\<open>catch\<close> handler: that raise
  leaves the function.
\<close>

lemma followUser_unrenderable:
  "js_ToString u = Inl e \<Longrightarrow> followUser E u cookieStr tr = (Inl e, tr)"
  by (simp add: followUser_def followUser_try_def friendship_try_def catch_all_def
        template_def bind_result_def split: sum.splits)

lemma unfollowUser_unrenderable:
  "js_ToString u = Inl e \<Longrightarrow> unfollowUser E u cookieStr tr = (Inl e, tr)"
  by (simp add: unfollowUser_def unfollowUser_try_def friendship_try_def catch_all_def
        template_def bind_result_def split: sum.splits)

lemma likePost_behaviour:
  "\<exists>r tr'. likePost E url cookieStr tr = (Inr r, tr')
     \<and> (\<forall>e. rejected_with E tr tr' e \<or> fst (likePost_try E url cookieStr tr) = Inl e
           \<longrightarrow> r = result False (''Error liking post: '' @ error_message e))"
  unfolding likePost_def
  by (rule catch_all_behaviour) (rule likePost_try_fault)

lemma unlikePost_behaviour:
  "\<exists>r tr'. unlikePost E url cookieStr tr = (Inr r, tr')
     \<and> (\<forall>e. rejected_with E tr tr' e \<or> fst (unlikePost_try E url cookieStr tr) = Inl e
           \<longrightarrow> r = result False (''Error unliking post: '' @ error_message e))"
  unfolding unlikePost_def
  by (rule catch_all_behaviour) (rule unlikePost_try_fault)

lemma commentPost_behaviour:
  "\<exists>r tr'. commentPost E url words cookieStr tr = (Inr r, tr')
     \<and> (\<forall>e. rejected_with E tr tr' e \<or> fst (commentPost_try E url words cookieStr tr) = Inl e
           \<longrightarrow> r = result False (''Error commenting on post: '' @ error_message e))"
  unfolding commentPost_def
  by (rule catch_all_behaviour) (rule commentPost_try_fault)

lemma deleteComment_behaviour:
  "\<exists>r tr'. deleteComment E url cid cookieStr tr = (Inr r, tr')
     \<and> (\<forall>e. rejected_with E tr tr' e \<or> fst (deleteComment_try E url cid cookieStr tr) = Inl e
           \<longrightarrow> r = result False (''Error deleting comment: '' @ error_message e))"
  unfolding deleteComment_def
  by (rule catch_all_behaviour) (rule deleteComment_try_fault)

lemma getInstagramProfileInfo_behaviour:
  "\<exists>r tr'. getInstagramProfileInfo E u cookieStr tr = (Inr r, tr')
     \<and> (\<forall>e. rejected_with E tr tr' e \<or> fst (getInstagramProfileInfo_try E u cookieStr tr) = Inl e
           \<longrightarrow> r = result False (''Error getting profile info: '' @ error_message e))"
  unfolding getInstagramProfileInfo_def
  by (rule catch_all_behaviour) (rule getInstagramProfileInfo_try_fault)

lemma failing_operation:
  assumes "\<exists>r tr'. out = (Inr r, tr')
             \<and> (\<forall>e. rejected_with E tr tr' e \<or> raised e \<longrightarrow> r = result False (msg e))"
  shows "\<exists>r tr'. out = (Inr r, tr') \<and> (\<forall>e. rejected_with E tr tr' e \<longrightarrow> \<not> success r)"
  using assms by (auto simp: result_def)

lemma log_and_invoke_dispatch:
  assumes "\<exists>r tr'. operation tr = (Inr r, tr') \<and> (\<forall>e. rejected_with E tr tr' e \<longrightarrow> \<not> success r)"
  shows "\<exists>r tr'. log_and_invoke t1 t2 logEntry (Inr act) operation (st, tr) =
           (json_reply 200 r,
            snd (updateActivityLog (snd (createActivityLog st t1 (logEntry\<lparr>action := act\<rparr>))) t2
                   (logId st) (outcome_status r)),
            tr')
         \<and> (\<forall>e. rejected_with E tr tr' e \<longrightarrow> \<not> success r)"
proof -
  from assms obtain r tr' where op: "operation tr = (Inr r, tr')"
    and rej: "\<forall>e. rejected_with E tr tr' e \<longrightarrow> \<not> success r"
    by blast
  from log_and_invoke_returns [of operation tr r tr', OF op] rej show ?thesis
    by blast
qed

text \<open>
  A request that passes the checks of its \<^verbatim>\<open>case\<close> enters the block of that
  \<^verbatim>\<open>case\<close> with the action text of its kind; once that text is rendered, the awaited
  function returns.
\<close>

lemma run_enters_block:
  assumes c: "getCookiesByUserId st userId = cookie # rest"
    and disp: "dispatchable body"
  shows "\<exists>operation.
          run E t1 t2 userId body (st, tr) =
            log_and_invoke t1 t2 (pending_entry userId body ''Pending'') (action_text body) operation (st, tr)
          \<and> (\<forall>act. action_text body = Inr act \<longrightarrow>
                (\<exists>r tr'. operation tr = (Inr r, tr') \<and> (\<forall>e. rejected_with E tr tr' e \<longrightarrow> \<not> success r)))"
  using disp unfolding dispatchable_def
proof (elim disjE conjE)
  assume k: "req_type body \<in> {JStr ''follow'', JStr ''unfollow'', JStr ''profile_info''}"
    and f: "truthy (username body)"
  from k consider "req_type body = JStr ''follow''" | "req_type body = JStr ''unfollow''"
    | "req_type body = JStr ''profile_info''" by blast
  then show ?thesis
  proof cases
    case 1
    have a: "action_text body = template ''Followed @'' (username body) []"
      using 1 by (simp add: action_text_def)
    have "run E t1 t2 userId body (st, tr) =
            log_and_invoke t1 t2 (pending_entry userId body ''Pending'') (action_text body)
              (followUser E (username body) (JStr (cookieString cookie))) (st, tr)"
      unfolding a using 1 f c by (simp add: run_def Let_def pending_entry_def)
    moreover have "\<exists>r tr'. followUser E (username body) (JStr (cookieString cookie)) tr = (Inr r, tr')
        \<and> (\<forall>e. rejected_with E tr tr' e \<longrightarrow> \<not> success r)" if "action_text body = Inr act" for act
    proof -
      from that obtain name where "js_ToString (username body) = Inr name"
        unfolding a template_Inr by blast
      from failing_operation [OF followUser_behaviour [OF this, of E _ tr]] show ?thesis .
    qed
    ultimately show ?thesis by blast
  next
    case 2
    have a: "action_text body = template ''Unfollowed @'' (username body) []"
      using 2 by (simp add: action_text_def)
    have "run E t1 t2 userId body (st, tr) =
            log_and_invoke t1 t2 (pending_entry userId body ''Pending'') (action_text body)
              (unfollowUser E (username body) (JStr (cookieString cookie))) (st, tr)"
      unfolding a using 2 f c by (simp add: run_def Let_def pending_entry_def)
    moreover have "\<exists>r tr'. unfollowUser E (username body) (JStr (cookieString cookie)) tr = (Inr r, tr')
        \<and> (\<forall>e. rejected_with E tr tr' e \<longrightarrow> \<not> success r)" if "action_text body = Inr act" for act
    proof -
      from that obtain name where "js_ToString (username body) = Inr name"
        unfolding a template_Inr by blast
      from failing_operation [OF unfollowUser_behaviour [OF this, of E _ tr]] show ?thesis .
    qed
    ultimately show ?thesis by blast
  next
    case 3
    have a: "action_text body = template ''Retrieved profile info: @'' (username body) []"
      using 3 by (simp add: action_text_def)
    have "run E t1 t2 userId body (st, tr) =
            log_and_invoke t1 t2 (pending_entry userId body ''Pending'') (action_text body)
              (getInstagramProfileInfo E (username body) (JStr (cookieString cookie))) (st, tr)"
      unfolding a using 3 f c by (simp add: run_def Let_def pending_entry_def)
    with failing_operation [OF getInstagramProfileInfo_behaviour [of E _ _ tr]] show ?thesis by blast
  qed
next
  assume k: "req_type body \<in> {JStr ''like'', JStr ''unlike''}"
    and f: "truthy (postUrl body)"
  from k consider "req_type body = JStr ''like''" | "req_type body = JStr ''unlike''" by blast
  then show ?thesis
  proof cases
    case 1
    have a: "action_text body = template ''Liked post: '' (postUrl body) []"
      using 1 by (simp add: action_text_def)
    have "run E t1 t2 userId body (st, tr) =
            log_and_invoke t1 t2 (pending_entry userId body ''Pending'') (action_text body)
              (likePost E (postUrl body) (JStr (cookieString cookie))) (st, tr)"
      unfolding a using 1 f c by (simp add: run_def Let_def pending_entry_def)
    with failing_operation [OF likePost_behaviour [of E _ _ tr]] show ?thesis by blast
  next
    case 2
    have a: "action_text body = template ''Unliked post: '' (postUrl body) []"
      using 2 by (simp add: action_text_def)
    have "run E t1 t2 userId body (st, tr) =
            log_and_invoke t1 t2 (pending_entry userId body ''Pending'') (action_text body)
              (unlikePost E (postUrl body) (JStr (cookieString cookie))) (st, tr)"
      unfolding a using 2 f c by (simp add: run_def Let_def pending_entry_def)
    with failing_operation [OF unlikePost_behaviour [of E _ _ tr]] show ?thesis by blast
  qed
next
  assume k: "req_type body = JStr ''comment''"
    and f: "truthy (postUrl body)" "truthy (commentText body)"
  have a: "action_text body = template ''Commented on post: '' (postUrl body) []"
    using k by (simp add: action_text_def)
  have "run E t1 t2 userId body (st, tr) =
          log_and_invoke t1 t2 (pending_entry userId body ''Pending'') (action_text body)
            (commentPost E (postUrl body) (commentText body) (JStr (cookieString cookie))) (st, tr)"
    unfolding a using k f c by (simp add: run_def Let_def pending_entry_def)
  with failing_operation [OF commentPost_behaviour [of E _ _ _ tr]] show ?thesis by blast
next
  assume k: "req_type body = JStr ''delete_comment''"
    and f: "truthy (commentId body)"
  have a: "action_text body = template ''Deleted comment: '' (commentId body) []"
    using k by (simp add: action_text_def)
  have "run E t1 t2 userId body (st, tr) =
          log_and_invoke t1 t2 (pending_entry userId body ''Pending'') (action_text body)
            (deleteComment E (js_or (postUrl body) (JStr [])) (commentId body) (JStr (cookieString cookie))) (st, tr)"
    unfolding a using k f c by (simp add: run_def Let_def pending_entry_def)
  with failing_operation [OF deleteComment_behaviour [of E _ _ _ tr]] show ?thesis by blast
next
  assume k: "req_type body = JStr ''duplicates''"
  have a: "action_text body = Inr ''Removed duplicate accounts''"
    using k by (simp add: action_text_def)
  have "run E t1 t2 userId body (st, tr) =
          log_and_invoke t1 t2 (pending_entry userId body ''Pending'') (action_text body)
            (removeDuplicateAccounts (JStr (cookieString cookie))) (st, tr)"
    unfolding a using k c by (simp add: run_def Let_def pending_entry_def)
  moreover have "\<exists>r tr'. removeDuplicateAccounts (JStr (cookieString cookie)) tr = (Inr r, tr')
      \<and> (\<forall>e. rejected_with E tr tr' e \<longrightarrow> \<not> success r)"
    by (auto simp: removeDuplicateAccounts_def)
  ultimately show ?thesis by blast
qed

lemma run_dispatch:
  assumes cred: "getCookiesByUserId st userId \<noteq> []"
    and disp: "dispatchable body"
    and act: "action_text body = Inr act"
  shows "\<exists>r tr'. run E t1 t2 userId body (st, tr) =
           (json_reply 200 r,
            snd (updateActivityLog (snd (createActivityLog st t1 (pending_entry userId body act)))
                   t2 (logId st) (outcome_status r)),
            tr')
         \<and> (\<forall>e. rejected_with E tr tr' e \<longrightarrow> \<not> success r)"
proof -
  obtain cookie rest where c: "getCookiesByUserId st userId = cookie # rest"
    using cred by (cases "getCookiesByUserId st userId") auto
  from run_enters_block [OF c disp, of E t1 t2 tr] act obtain operation where
    run: "run E t1 t2 userId body (st, tr) =
            log_and_invoke t1 t2 (pending_entry userId body ''Pending'') (Inr act) operation (st, tr)"
    and op: "\<exists>r tr'. operation tr = (Inr r, tr') \<and> (\<forall>e. rejected_with E tr tr' e \<longrightarrow> \<not> success r)"
    by auto
  have e: "(pending_entry userId body ''Pending'')\<lparr>action := act\<rparr> = pending_entry userId body act"
    by (simp add: pending_entry_def)
  from log_and_invoke_dispatch [of operation tr E t1 t2 "pending_entry userId body ''Pending''" act st, OF op]
  show ?thesis
    unfolding run e .
qed

lemma run_unrenderable:
  assumes cred: "getCookiesByUserId st userId \<noteq> []"
    and disp: "dispatchable body"
    and act: "action_text body = Inl e"
  shows "run E t1 t2 userId body (st, tr) = (error_reply e, st, tr)"
proof -
  obtain cookie rest where c: "getCookiesByUserId st userId = cookie # rest"
    using cred by (cases "getCookiesByUserId st userId") auto
  from run_enters_block [OF c disp, of E t1 t2 tr] act show ?thesis
    by (auto simp: log_and_invoke_unrendered)
qed

subsection \<open>The handler of \<^verbatim>\<open>POST /run\<close>\<close>

lemma run_not_dispatchable:
  assumes "getCookiesByUserId st userId \<noteq> []" and "\<not> dispatchable body"
  shows "\<exists>code msg. (code = 200 \<or> code = 400)
           \<and> run E t1 t2 userId body (st, tr) = (json_reply code (result False msg), st, tr)"
  using assms
  by (cases "getCookiesByUserId st userId") (auto simp: run_def dispatchable_def Let_def)



lemma run_structured:
  "\<exists>rep st' tr'. run E t1 t2 userId body (st, tr) = (rep, st', tr')
      \<and> (error_field rep = None \<and> (http_status rep = 200 \<or> http_status rep = 400)
         \<or> (\<exists>e. action_text body = Inl e \<and> rep = error_reply e) \<and> st' = st \<and> tr' = tr)"
proof (cases "getCookiesByUserId st userId = []")
  case True
  then show ?thesis
    by (simp add: run_def json_reply_def)
next
  case cred: False
  show ?thesis
  proof (cases "dispatchable body")
    case True
    show ?thesis
    proof (cases "action_text body")
      case (Inl e)
      from run_unrenderable [OF cred True Inl, of E t1 t2 tr] Inl show ?thesis
        by simp
    next
      case (Inr act)
      from run_dispatch [OF cred True Inr, of E t1 t2 tr] show ?thesis
        by (auto simp: json_reply_def)
    qed
  next
    case False
    from run_not_dispatchable [OF cred False, of E t1 t2 tr] show ?thesis
      by (auto simp: json_reply_def)
  qed
qed

lemma example_storage_ok: "storage_ok example_storage"
  by (simp add: storage_ok_def example_storage_def)

lemma example_credential: "getCookiesByUserId example_storage 7 \<noteq> []"
  by (simp add: getCookiesByUserId_def example_storage_def)

lemma example_no_credential: "getCookiesByUserId example_storage 8 = []"
  by (simp add: getCookiesByUserId_def example_storage_def)

text \<open>
  Claim C1 (every request that passes the field checks and has a credential gets exactly
  one log entry, created pending and updated once) does not hold for every request body:
  the checks look at truthiness only, and the field is then rendered into the action
  text before the entry is created.  A follow request whose username is the object
  \<^verbatim>\<open>{"toString": 1}\<close> passes the checks; rendering it raises, the outer
  \<^verbatim>\<open>catch\<close> answers 500 and no entry exists.
\<close>

theorem dispatch_log_lifecycle_counterexample:
  "dispatchable follow_unrenderable
   \<and> map cookie_id (getCookiesByUserId example_storage 7) = [1]
   \<and> run offline_env 10 20 7 follow_unrenderable (example_storage, []) =
       (error_reply (TypeError ''Cannot convert object to primitive value''), example_storage, [])
   \<and> http_status (fst (run offline_env 10 20 7 follow_unrenderable (example_storage, []))) = 500
   \<and> map fst (activityLogs (fst (snd (run offline_env 10 20 7 follow_unrenderable (example_storage, []))))) =
       [1]
   \<and> map fst (activityLogs example_storage) = [1]"
  by code_simp

text \<open>
  Claim C1 as amended: a request that passes the field checks, by a user with a
  credential, on a well-formed storage.  When the action text of its kind renders to
  \<open>act\<close>, the handler answers 200 with the library function's result \<open>r\<close>; the final
  storage is the initial one after one \<^verbatim>\<open>createActivityLog\<close> of a pending entry
  with that action and one \<^verbatim>\<open>updateActivityLog\<close> of that entry: the entries that
  were there are unchanged (none goes back to pending, none is deleted), the new entry is
  appended as pending and ends as success or failed as \<open>r\<close> says.  When the transport
  rejects a request of the call, \<open>r\<close> is a failure and the entry ends as failed.  When
  the action text raises \<open>e\<close> instead, the answer is the 500 reply with the text of
  \<open>e\<close>, and the storage and the trace are unchanged: no entry is left pending.  The
  action text renders whenever the three fields it may show convert to text, as a string,
  a number, a boolean, \<^verbatim>\<open>null\<close> and a missing field do.
\<close>

theorem dispatch_log_lifecycle:
  assumes "storage_ok st" and "getCookiesByUserId st userId \<noteq> []" and "dispatchable body"
  shows "(action_text body = Inr act \<longrightarrow>
      (\<exists>r tr'.
         run E t1 t2 userId body (st, tr) =
           (json_reply 200 r,
            snd (updateActivityLog (snd (createActivityLog st t1 (pending_entry userId body act)))
                   t2 (logId st) (outcome_status r)),
            tr')
         \<and> status (fst (createActivityLog st t1 (pending_entry userId body act))) = Pending
         \<and> activityLogs (snd (createActivityLog st t1 (pending_entry userId body act))) =
             activityLogs st @ [(logId st, fst (createActivityLog st t1 (pending_entry userId body act)))]
         \<and> activityLogs (fst (snd (run E t1 t2 userId body (st, tr)))) =
             activityLogs st @
             [(logId st, (fst (createActivityLog st t1 (pending_entry userId body act)))
                           \<lparr>status := outcome_status r, updatedAt := Some t2\<rparr>)]
         \<and> outcome_status r = (if success r then Success else Failed)
         \<and> (\<forall>e. rejected_with E tr tr' e \<longrightarrow> \<not> success r \<and> outcome_status r = Failed)
         \<and> storage_ok (fst (snd (run E t1 t2 userId body (st, tr))))))
    \<and> (action_text body = Inl e \<longrightarrow> run E t1 t2 userId body (st, tr) = (error_reply e, st, tr))
    \<and> ((\<exists>a. js_ToString (username body) = Inr a) \<and> (\<exists>b. js_ToString (postUrl body) = Inr b)
          \<and> (\<exists>c. js_ToString (commentId body) = Inr c)
         \<longrightarrow> (\<exists>act. action_text body = Inr act))"
proof (intro conjI impI)
  assume a: "action_text body = Inr act"
  from run_dispatch [OF assms(2,3) a, of E t1 t2 tr]
  obtain r tr' where
    run: "run E t1 t2 userId body (st, tr) =
       (json_reply 200 r,
        snd (updateActivityLog (snd (createActivityLog st t1 (pending_entry userId body act)))
               t2 (logId st) (outcome_status r)),
        tr')"
    and rej: "\<forall>e. rejected_with E tr tr' e \<longrightarrow> \<not> success r"
    by blast
  have pend: "status (fst (createActivityLog st t1 (pending_entry userId body act))) = Pending"
    by (simp add: createActivityLog_fst pending_entry_def)
  note created = createActivityLog_logs [OF assms(1), of t1 "pending_entry userId body act"]
  note final = create_then_update_logs [OF assms(1), of t1 "pending_entry userId body act" t2 "outcome_status r"]
  note ok = create_then_update_ok [OF assms(1), of t1 "pending_entry userId body act" t2 "outcome_status r"]
  have rej': "\<forall>e. rejected_with E tr tr' e \<longrightarrow> \<not> success r \<and> outcome_status r = Failed"
    using rej by (simp add: outcome_status_def)
  show "\<exists>r tr'.
         run E t1 t2 userId body (st, tr) =
           (json_reply 200 r,
            snd (updateActivityLog (snd (createActivityLog st t1 (pending_entry userId body act)))
                   t2 (logId st) (outcome_status r)),
            tr')
         \<and> status (fst (createActivityLog st t1 (pending_entry userId body act))) = Pending
         \<and> activityLogs (snd (createActivityLog st t1 (pending_entry userId body act))) =
             activityLogs st @ [(logId st, fst (createActivityLog st t1 (pending_entry userId body act)))]
         \<and> activityLogs (fst (snd (run E t1 t2 userId body (st, tr)))) =
             activityLogs st @
             [(logId st, (fst (createActivityLog st t1 (pending_entry userId body act)))
                           \<lparr>status := outcome_status r, updatedAt := Some t2\<rparr>)]
         \<and> outcome_status r = (if success r then Success else Failed)
         \<and> (\<forall>e. rejected_with E tr tr' e \<longrightarrow> \<not> success r \<and> outcome_status r = Failed)
         \<and> storage_ok (fst (snd (run E t1 t2 userId body (st, tr))))"
    apply (rule exI [of _ r], rule exI [of _ tr'])
    apply (intro conjI)
          apply (rule run)
         apply (rule pend)
        apply (rule created)
       apply (simp only: run fst_conv snd_conv final)
      apply (simp add: outcome_status_def)
     apply (rule rej')
    apply (simp only: run fst_conv snd_conv ok)
    done
next
  assume "action_text body = Inl e"
  then show "run E t1 t2 userId body (st, tr) = (error_reply e, st, tr)"
    by (rule run_unrenderable [OF assms(2,3)])
next
  assume "(\<exists>a. js_ToString (username body) = Inr a) \<and> (\<exists>b. js_ToString (postUrl body) = Inr b)
          \<and> (\<exists>c. js_ToString (commentId body) = Inr c)"
  then show "\<exists>act. action_text body = Inr act"
    by (auto simp: action_text_def template_def bind_result_def)
qed

theorem dispatch_log_lifecycle_witness:
  "storage_ok example_storage
   \<and> getCookiesByUserId example_storage 7 \<noteq> []
   \<and> dispatchable follow_alice
   \<and> action_text follow_alice = Inr ''Followed @alice''
   \<and> js_ToString (username follow_alice) = Inr ''alice''
   \<and> js_ToString (postUrl follow_alice) = Inr ''undefined''
   \<and> js_ToString (commentId follow_alice) = Inr ''undefined''
   \<and> (\<exists>act. action_text follow_alice = Inr act)
   \<and> (\<exists>r tr'.
        run offline_env 10 20 7 follow_alice (example_storage, []) =
          (json_reply 200 r,
           snd (updateActivityLog
                  (snd (createActivityLog example_storage 10 (pending_entry 7 follow_alice ''Followed @alice'')))
                  20 (logId example_storage) (outcome_status r)),
           tr')
        \<and> activityLogs (fst (snd (run offline_env 10 20 7 follow_alice (example_storage, [])))) =
            activityLogs example_storage @
            [(logId example_storage,
              (fst (createActivityLog example_storage 10 (pending_entry 7 follow_alice ''Followed @alice'')))
                \<lparr>status := outcome_status r, updatedAt := Some 20\<rparr>)])
   \<and> map (\<lambda>kv. (fst kv, status (snd kv)))
        (activityLogs (fst (snd (run offline_env 10 20 7 follow_alice (example_storage, []))))) =
       [(1, Success), (2, Failed)]
   \<and> map (\<lambda>kv. (fst kv, status (snd kv)))
        (activityLogs (fst (snd (run online_env 10 20 7 follow_alice (example_storage, []))))) =
       [(1, Success), (2, Success)]
   \<and> dispatchable follow_unrenderable
   \<and> action_text follow_unrenderable = Inl (TypeError ''Cannot convert object to primitive value'')
   \<and> run offline_env 10 20 7 follow_unrenderable (example_storage, []) =
       (error_reply (TypeError ''Cannot convert object to primitive value''), example_storage, [])"
proof -
  have d: "dispatchable follow_alice"
    by (simp add: dispatchable_def follow_alice_def request_of_def)
  have t: "action_text follow_alice = Inr ''Followed @alice''"
    by (simp add: action_text_def follow_alice_def request_of_def template_def bind_result_def)
  have r1: "js_ToString (username follow_alice) = Inr ''alice''"
    and r2: "js_ToString (postUrl follow_alice) = Inr ''undefined''"
    and r3: "js_ToString (commentId follow_alice) = Inr ''undefined''"
    by (simp_all add: follow_alice_def request_of_def)
  have r: "(\<exists>a. js_ToString (username follow_alice) = Inr a)
      \<and> (\<exists>b. js_ToString (postUrl follow_alice) = Inr b)
      \<and> (\<exists>c. js_ToString (commentId follow_alice) = Inr c)"
    using r1 r2 r3 by blast
  note x = dispatch_log_lifecycle [OF example_storage_ok example_credential d,
      of _ offline_env 10 20 "[]", THEN conjunct2, THEN conjunct2, rule_format, OF r]
  have d': "dispatchable follow_unrenderable"
    by (simp add: dispatchable_def follow_unrenderable_def request_of_def)
  have t': "action_text follow_unrenderable = Inl (TypeError ''Cannot convert object to primitive value'')"
    by (simp add: action_text_def follow_unrenderable_def request_of_def template_def bind_result_def)
  from dispatch_log_lifecycle [OF example_storage_ok example_credential d,
      of "''Followed @alice''" offline_env 10 20 "[]", THEN conjunct1, rule_format, OF t]
  have c: "\<exists>r tr'.
        run offline_env 10 20 7 follow_alice (example_storage, []) =
          (json_reply 200 r,
           snd (updateActivityLog
                  (snd (createActivityLog example_storage 10 (pending_entry 7 follow_alice ''Followed @alice'')))
                  20 (logId example_storage) (outcome_status r)),
           tr')
        \<and> activityLogs (fst (snd (run offline_env 10 20 7 follow_alice (example_storage, [])))) =
            activityLogs example_storage @
            [(logId example_storage,
              (fst (createActivityLog example_storage 10 (pending_entry 7 follow_alice ''Followed @alice'')))
                \<lparr>status := outcome_status r, updatedAt := Some 20\<rparr>)]"
    by blast
  have off: "map (\<lambda>kv. (fst kv, status (snd kv)))
        (activityLogs (fst (snd (run offline_env 10 20 7 follow_alice (example_storage, []))))) =
       [(1, Success), (2, Failed)]"
    by code_simp
  have on: "map (\<lambda>kv. (fst kv, status (snd kv)))
        (activityLogs (fst (snd (run online_env 10 20 7 follow_alice (example_storage, []))))) =
       [(1, Success), (2, Success)]"
    by code_simp
  note u = dispatch_log_lifecycle [OF example_storage_ok example_credential d',
      of _ offline_env 10 20 "[]" "TypeError ''Cannot convert object to primitive value''",
      THEN conjunct2, THEN conjunct1, rule_format, OF t']
  show ?thesis
    by (intro conjI example_storage_ok example_credential d t r1 r2 r3 x c off on d' t' u)
qed




text \<open>
  Claim C5 (every kind outside the seven is answered \<^verbatim>\<open>Unknown automation type\<close>
  and creates no log entry) does not hold: the \<^verbatim>\<open>switch\<close> has an eighth case,
  \<^verbatim>\<open>duplicates\<close>, which creates a log entry and succeeds; and a user without a
  credential is told so before the kind is looked at.
\<close>

theorem run_unknown_type_counterexample:
  "fst (run offline_env 10 20 7 (request_of ''duplicates'') (example_storage, [])) =
     json_reply 200 (result True ''Duplicate account check completed. No duplicates found.'')
   \<and> map (\<lambda>kv. (fst kv, status (snd kv)))
        (activityLogs (fst (snd (run offline_env 10 20 7 (request_of ''duplicates'') (example_storage, []))))) =
       [(1, Success), (2, Success)]
   \<and> fst (run offline_env 10 20 8 (request_of ''schedule'') (example_storage, [])) =
       json_reply 400 (result False ''No cookies available. Please add an account or cookie first.'')"
  by code_simp

text \<open>
  Claim C5 as amended.  For a user with a credential and a request whose kind is none of
  the seven kinds nor \<^verbatim>\<open>duplicates\<close> (an absent kind or one that is not a string
  included), the handler answers with the failure \<^verbatim>\<open>Unknown automation type\<close>;
  the storage and the trace are unchanged.
\<close>

theorem run_unknown_type:
  assumes "getCookiesByUserId st userId \<noteq> []"
    and "req_type body \<notin> {JStr ''follow'', JStr ''unfollow'', JStr ''like'', JStr ''unlike'',
           JStr ''comment'', JStr ''delete_comment'', JStr ''profile_info'', JStr ''duplicates''}"
  shows "run E t1 t2 userId body (st, tr) =
           (json_reply 200 (result False ''Unknown automation type''), st, tr)"
  using assms by (simp add: run_def split: list.splits)

theorem run_unknown_type_witness:
  "getCookiesByUserId example_storage 7 \<noteq> []
   \<and> req_type (request_of ''schedule'')
        \<notin> {JStr ''follow'', JStr ''unfollow'', JStr ''like'', JStr ''unlike'',
           JStr ''comment'', JStr ''delete_comment'', JStr ''profile_info'', JStr ''duplicates''}
   \<and> run offline_env 10 20 7 (request_of ''schedule'') (example_storage, []) =
       (json_reply 200 (result False ''Unknown automation type''), example_storage, [])"
proof -
  have k: "req_type (request_of ''schedule'')
        \<notin> {JStr ''follow'', JStr ''unfollow'', JStr ''like'', JStr ''unlike'',
           JStr ''comment'', JStr ''delete_comment'', JStr ''profile_info'', JStr ''duplicates''}"
    by (simp add: request_of_def)
  show ?thesis
    by (intro conjI example_credential k run_unknown_type [OF example_credential k])
qed

text \<open>
  Claim C7: a user whose credential lookup is empty gets the failure
  \<^verbatim>\<open>No cookies available\<close> at once; the storage is unchanged (no log entry) and so
  is the trace (no remote call).
\<close>

theorem run_no_credential:
  assumes "getCookiesByUserId st userId = []"
  shows "run E t1 t2 userId body (st, tr) =
           (json_reply 400 (result False ''No cookies available. Please add an account or cookie first.''),
            st, tr)"
  using assms by (simp add: run_def)

theorem run_no_credential_witness:
  "getCookiesByUserId example_storage 8 = []
   \<and> run offline_env 10 20 8 follow_alice (example_storage, []) =
       (json_reply 400 (result False ''No cookies available. Please add an account or cookie first.''),
        example_storage, [])"
  by (intro conjI example_no_credential run_no_credential [OF example_no_credential])

subsection \<open>Which raises leave the library and the handler\<close>

text \<open>
  Claim C6 (no library function lets a raise escape, for every input; every request is
  answered with a result) does not hold for every input: the \<^verbatim>\<open>catch\<close> handlers of
  \<^verbatim>\<open>followUser\<close> and \<^verbatim>\<open>unfollowUser\<close> render the username into their message.
  Called with the object \<^verbatim>\<open>{"toString": 1}\<close>, \<^verbatim>\<open>followUser\<close> raises the
  TypeError of that rendering instead of returning.  The handler renders the same value
  first, so a request carrying it is answered by the outer \<^verbatim>\<open>catch\<close>: status 500
  and an \<^verbatim>\<open>error\<close> field, not a result of the library.
\<close>

theorem client_never_raises_counterexample:
  "followUser offline_env (JObj [(''toString'', JNum ''1'')]) (JStr ''csrftoken=abc123; sessionid=xyz'') [] =
     (Inl (TypeError ''Cannot convert object to primitive value''), [])
   \<and> unfollowUser offline_env (JObj [(''toString'', JNum ''1'')]) (JStr ''csrftoken=abc123; sessionid=xyz'') [] =
       (Inl (TypeError ''Cannot convert object to primitive value''), [])
   \<and> fst (run offline_env 10 20 7 follow_unrenderable (example_storage, [])) =
       \<lparr>http_status = 500, payload = result False ''Error running automation'',
        error_field = Some ''Cannot convert object to primitive value''\<rparr>"
  by code_simp

text \<open>
  Claim C6 as amended.  \<^verbatim>\<open>likePost\<close>, \<^verbatim>\<open>unlikePost\<close>, \<^verbatim>\<open>commentPost\<close>,
  \<^verbatim>\<open>deleteComment\<close> and \<^verbatim>\<open>getInstagramProfileInfo\<close> return a result for every
  input (any JSON value for each argument, the credential included) and every behaviour
  of the transport; \<^verbatim>\<open>followUser\<close> and \<^verbatim>\<open>unfollowUser\<close> do so for every
  username that can be rendered (to \<open>name\<close>), as every string can, and raise the error
  of the rendering otherwise, before anything is sent.  When the transport rejects a request the function sent, with an error \<open>e\<close>, the
  result is the failure whose message is the function's prefix followed by the text of
  \<open>e\<close>; the same holds for any other raise inside its \<^verbatim>\<open>try\<close> block, such as the
  TypeError of reading a field of a malformed response.  Every request to the handler is
  answered: with status 200 or 400, a JSON result and no \<^verbatim>\<open>error\<close> field; or, when
  the action text of the request cannot be rendered, with the 500 reply of the outer
  \<^verbatim>\<open>catch\<close>, the storage and the trace unchanged.  The handler never takes its outer
  \<^verbatim>\<open>catch\<close> for a raise of a library function.
\<close>

theorem client_never_raises:
  "(js_ToString u = Inr name \<longrightarrow>
      (\<exists>r tr'. followUser E u cookieStr tr = (Inr r, tr')
         \<and> (\<forall>e. rejected_with E tr tr' e \<or> fst (followUser_try E u cookieStr tr) = Inl e
              \<longrightarrow> r = result False (''Error following '' @ name @ '': '' @ error_message e)))
      \<and> (\<exists>r tr'. unfollowUser E u cookieStr tr = (Inr r, tr')
         \<and> (\<forall>e. rejected_with E tr tr' e \<or> fst (unfollowUser_try E u cookieStr tr) = Inl e
              \<longrightarrow> r = result False (''Error unfollowing '' @ name @ '': '' @ error_message e))))
   \<and> (js_ToString u = Inl e' \<longrightarrow>
        followUser E u cookieStr tr = (Inl e', tr) \<and> unfollowUser E u cookieStr tr = (Inl e', tr))
   \<and> js_ToString (JStr s) = Inr s
   \<and> (\<exists>r tr'. likePost E url cookieStr tr = (Inr r, tr')
      \<and> (\<forall>e. rejected_with E tr tr' e \<or> fst (likePost_try E url cookieStr tr) = Inl e
           \<longrightarrow> r = result False (''Error liking post: '' @ error_message e)))
   \<and> (\<exists>r tr'. unlikePost E url cookieStr tr = (Inr r, tr')
      \<and> (\<forall>e. rejected_with E tr tr' e \<or> fst (unlikePost_try E url cookieStr tr) = Inl e
           \<longrightarrow> r = result False (''Error unliking post: '' @ error_message e)))
   \<and> (\<exists>r tr'. commentPost E url words cookieStr tr = (Inr r, tr')
      \<and> (\<forall>e. rejected_with E tr tr' e \<or> fst (commentPost_try E url words cookieStr tr) = Inl e
           \<longrightarrow> r = result False (''Error commenting on post: '' @ error_message e)))
   \<and> (\<exists>r tr'. deleteComment E url cid cookieStr tr = (Inr r, tr')
      \<and> (\<forall>e. rejected_with E tr tr' e \<or> fst (deleteComment_try E url cid cookieStr tr) = Inl e
           \<longrightarrow> r = result False (''Error deleting comment: '' @ error_message e)))
   \<and> (\<exists>r tr'. getInstagramProfileInfo E u cookieStr tr = (Inr r, tr')
      \<and> (\<forall>e. rejected_with E tr tr' e \<or> fst (getInstagramProfileInfo_try E u cookieStr tr) = Inl e
           \<longrightarrow> r = result False (''Error getting profile info: '' @ error_message e)))
   \<and> (\<exists>rep st' tr'. run E t1 t2 userId body (st, tr) = (rep, st', tr')
      \<and> (error_field rep = None \<and> (http_status rep = 200 \<or> http_status rep = 400)
         \<or> (\<exists>e. action_text body = Inl e \<and> rep = error_reply e) \<and> st' = st \<and> tr' = tr))"
  apply (rule conjI, rule impI, rule conjI)
    apply (erule followUser_behaviour)
   apply (erule unfollowUser_behaviour)
  apply (rule conjI, rule impI, rule conjI)
    apply (erule followUser_unrenderable)
   apply (erule unfollowUser_unrenderable)
  apply (rule conjI, simp)
  apply (rule conjI, rule likePost_behaviour)
  apply (rule conjI, rule unlikePost_behaviour)
  apply (rule conjI, rule commentPost_behaviour)
  apply (rule conjI, rule deleteComment_behaviour)
  apply (rule conjI, rule getInstagramProfileInfo_behaviour)
  apply (rule run_structured)
  done

theorem client_never_raises_witness:
  "js_ToString (JStr ''alice'') = Inr ''alice''
   \<and> fst (followUser_try offline_env (JStr ''alice'') (JStr ''csrftoken=abc123; sessionid=xyz'') []) =
       Inl (TransportError ''getaddrinfo ENOTFOUND www.instagram.com'')
   \<and> fst (followUser offline_env (JStr ''alice'') (JStr ''csrftoken=abc123; sessionid=xyz'') []) =
       Inr (result False ''Error following alice: getaddrinfo ENOTFOUND www.instagram.com'')
   \<and> js_ToString (JObj [(''toString'', JNum ''1'')]) =
       Inl (TypeError ''Cannot convert object to primitive value'')
   \<and> followUser offline_env (JObj [(''toString'', JNum ''1'')]) (JStr ''csrftoken=abc123; sessionid=xyz'') [] =
       (Inl (TypeError ''Cannot convert object to primitive value''), [])
   \<and> fst (likePost_try offline_env (JStr ''https://www.instagram.com/p/ABC123/'') JUndefined []) =
       Inl (cannot_read ''undefined'' ''split'')
   \<and> fst (likePost offline_env (JStr ''https://www.instagram.com/p/ABC123/'') JUndefined []) =
       Inr (result False (''Error liking post: '' @ error_message (cannot_read ''undefined'' ''split'')))"
proof -
  let ?e = "TransportError ''getaddrinfo ENOTFOUND www.instagram.com''"
  let ?body = "followUser_try offline_env (JStr ''alice'') (JStr ''csrftoken=abc123; sessionid=xyz'') []"
  let ?o = "JObj [(''toString'', JNum ''1'')]"
  let ?t = "TypeError ''Cannot convert object to primitive value''"
  have rendered: "js_ToString (JStr ''alice'') = Inr ''alice''"
    by simp
  have raised: "fst ?body = Inl ?e"
    by (simp add: followUser_try_def friendship_try_def offline_env_def Let_def
          parseCookieString_call_string)
  note first = client_never_raises
    [of "JStr ''alice''" "''alice''" offline_env "JStr ''csrftoken=abc123; sessionid=xyz''" "[]",
     THEN conjunct1, rule_format, OF rendered, THEN conjunct1]
  then obtain r tr' where
    ret: "followUser offline_env (JStr ''alice'') (JStr ''csrftoken=abc123; sessionid=xyz'') [] = (Inr r, tr')"
    and conv: "\<forall>e. rejected_with offline_env [] tr' e \<or> fst ?body = Inl e
           \<longrightarrow> r = result False (''Error following '' @ ''alice'' @ '': '' @ error_message e)"
    by (elim exE conjE)
  have "r = result False (''Error following '' @ ''alice'' @ '': '' @ error_message ?e)"
    by (rule conv [rule_format, of ?e, OF disjI2 [OF raised]])
  then have "r = result False ''Error following alice: getaddrinfo ENOTFOUND www.instagram.com''"
    by simp
  with ret have returned: "fst (followUser offline_env (JStr ''alice'') (JStr ''csrftoken=abc123; sessionid=xyz'') []) =
       Inr (result False ''Error following alice: getaddrinfo ENOTFOUND www.instagram.com'')"
    by simp
  have unrendered: "js_ToString ?o = Inl ?t"
    by simp
  note escaped = client_never_raises
    [of ?o _ offline_env "JStr ''csrftoken=abc123; sessionid=xyz''" "[]" ?t,
     THEN conjunct2, THEN conjunct1, rule_format, OF unrendered, THEN conjunct1]
  let ?p = "JStr ''https://www.instagram.com/p/ABC123/''"
  have unparsed: "fst (likePost_try offline_env ?p JUndefined []) = Inl (cannot_read ''undefined'' ''split'')"
    by (simp add: likePost_try_def media_try_def parseCookieString_call_def bind_result_def)
  note fourth = client_never_raises
    [where E = offline_env and url = ?p and cookieStr = JUndefined and tr = "[]",
     THEN conjunct2, THEN conjunct2, THEN conjunct2, THEN conjunct1]
  then obtain r' tr'' where
    ret': "likePost offline_env ?p JUndefined [] = (Inr r', tr'')"
    and conv': "\<forall>e. rejected_with offline_env [] tr'' e \<or> fst (likePost_try offline_env ?p JUndefined []) = Inl e
           \<longrightarrow> r' = result False (''Error liking post: '' @ error_message e)"
    by (elim exE conjE)
  have "r' = result False (''Error liking post: '' @ error_message (cannot_read ''undefined'' ''split''))"
    by (rule conv' [rule_format, of "cannot_read ''undefined'' ''split''", OF disjI2 [OF unparsed]])
  with ret' have caught: "fst (likePost offline_env ?p JUndefined []) =
       Inr (result False (''Error liking post: '' @ error_message (cannot_read ''undefined'' ''split'')))"
    by simp
  show ?thesis
    by (intro conjI rendered raised returned unrendered escaped unparsed caught)
qed

subsection \<open>Further properties of the handler\<close>

text \<open>
  A request that lacks a field its kind requires is refused with status 400 and the
  message of its \<^verbatim>\<open>case\<close>; the storage and the trace are unchanged, so no log entry
  is created and nothing is sent.
\<close>

theorem run_missing_field:
  assumes "getCookiesByUserId st userId \<noteq> []"
  shows "(req_type body \<in> {JStr ''follow'', JStr ''unfollow'', JStr ''profile_info''}
            \<and> \<not> truthy (username body)
          \<longrightarrow> run E t1 t2 userId body (st, tr) =
                (json_reply 400 (result False ''Username is required''), st, tr))
       \<and> (req_type body \<in> {JStr ''like'', JStr ''unlike''} \<and> \<not> truthy (postUrl body)
          \<longrightarrow> run E t1 t2 userId body (st, tr) =
                (json_reply 400 (result False ''Post URL is required''), st, tr))
       \<and> (req_type body = JStr ''comment'' \<and> (\<not> truthy (postUrl body) \<or> \<not> truthy (commentText body))
          \<longrightarrow> run E t1 t2 userId body (st, tr) =
                (json_reply 400 (result False ''Post URL and comment text are required''), st, tr))
       \<and> (req_type body = JStr ''delete_comment'' \<and> \<not> truthy (commentId body)
          \<longrightarrow> run E t1 t2 userId body (st, tr) =
                (json_reply 400 (result False ''Comment ID is required''), st, tr))"
proof -
  obtain cookie rest where c: "getCookiesByUserId st userId = cookie # rest"
    using assms by (cases "getCookiesByUserId st userId") auto
  show ?thesis
    by (auto simp: run_def c Let_def)
qed

theorem run_missing_field_witness:
  "getCookiesByUserId example_storage 7 \<noteq> []
   \<and> req_type (request_of ''follow'') \<in> {JStr ''follow'', JStr ''unfollow'', JStr ''profile_info''}
   \<and> \<not> truthy (username (request_of ''follow''))
   \<and> run offline_env 10 20 7 (request_of ''follow'') (example_storage, []) =
       (json_reply 400 (result False ''Username is required''), example_storage, [])"
proof -
  have k: "req_type (request_of ''follow'') \<in> {JStr ''follow'', JStr ''unfollow'', JStr ''profile_info''}"
    and f: "\<not> truthy (username (request_of ''follow''))"
    by (simp_all add: request_of_def)
  from run_missing_field [OF example_credential, of "request_of ''follow''" offline_env 10 20 "[]"] k f
  have r: "run offline_env 10 20 7 (request_of ''follow'') (example_storage, []) =
       (json_reply 400 (result False ''Username is required''), example_storage, [])"
    by blast
  show ?thesis
    by (intro conjI example_credential k f r)
qed

text \<open>
  The storage the constructor builds is well formed, and the handler keeps a well-formed
  storage well formed, whatever the request.
\<close>

theorem run_keeps_storage_ok:
  "storage_ok MemStorage_new
   \<and> (storage_ok st \<longrightarrow> storage_ok (fst (snd (run E t1 t2 userId body (st, tr)))))"
proof (intro conjI impI)
  show "storage_ok MemStorage_new"
    by (simp add: storage_ok_def MemStorage_new_def)
next
  assume ok: "storage_ok st"
  show "storage_ok (fst (snd (run E t1 t2 userId body (st, tr))))"
  proof (cases "getCookiesByUserId st userId = []")
    case True
    with ok show ?thesis
      by (simp add: run_def)
  next
    case cred: False
    show ?thesis
    proof (cases "dispatchable body")
      case True
      show ?thesis
      proof (cases "action_text body")
        case (Inl e)
        from run_unrenderable [OF cred True Inl, of E t1 t2 tr] ok show ?thesis
          by simp
      next
        case (Inr act)
        from run_dispatch [OF cred True Inr, of E t1 t2 tr] obtain r tr' where
          "run E t1 t2 userId body (st, tr) =
             (json_reply 200 r,
              snd (updateActivityLog (snd (createActivityLog st t1 (pending_entry userId body act)))
                     t2 (logId st) (outcome_status r)),
              tr')"
          by blast
        then show ?thesis
          by (simp add: create_then_update_ok [OF ok])
      qed
    next
      case False
      from run_not_dispatchable [OF cred False, of E t1 t2 tr] ok show ?thesis
        by auto
    qed
  qed
qed

theorem run_keeps_storage_ok_witness:
  "storage_ok example_storage
   \<and> storage_ok (fst (snd (run online_env 10 20 7 follow_alice (example_storage, []))))
   \<and> logId (fst (snd (run online_env 10 20 7 follow_alice (example_storage, [])))) = 3"
proof -
  from run_keeps_storage_ok [of example_storage online_env 10 20 7 follow_alice "[]"] example_storage_ok
  have a: "storage_ok (fst (snd (run online_env 10 20 7 follow_alice (example_storage, []))))"
    by blast
  have b: "logId (fst (snd (run online_env 10 20 7 follow_alice (example_storage, [])))) = 3"
    by code_simp
  show ?thesis
    by (intro conjI example_storage_ok a b)
qed

text \<open>
  The follow scenario end to end: the credential \<^verbatim>\<open>csrftoken=abc123; sessionid=xyz\<close>,
  a profile lookup that answers the identifier \<^verbatim>\<open>55\<close> and a follow request that
  answers 200.  The result is a success naming alice, two requests were sent, the second
  to the endpoint of account 55 with the token of the credential, and the new log entry
  is a success for \<^verbatim>\<open>alice\<close>.
\<close>

theorem follow_alice_scenario:
  "fst (run online_env 10 20 7 follow_alice (example_storage, [])) =
     json_reply 200 (result True ''Successfully followed alice'')
   \<and> map req_url (snd (snd (run online_env 10 20 7 follow_alice (example_storage, [])))) =
       [''https://www.instagram.com/api/v1/users/web_profile_info/?username=alice'',
        ''https://www.instagram.com/api/v1/friendships/create/55/'']
   \<and> map (\<lambda>rq. map_of (req_headers rq) ''X-CSRFToken'')
        (snd (snd (run online_env 10 20 7 follow_alice (example_storage, [])))) =
       [Some (JStr ''abc123''), Some (JStr ''abc123'')]
   \<and> map (\<lambda>kv. (log_type (snd kv), accountUsername (snd kv), action (snd kv), status (snd kv)))
        (drop 1 (activityLogs (fst (snd (run online_env 10 20 7 follow_alice (example_storage, [])))))) =
       [(JStr ''follow'', JStr ''alice'', ''Followed @alice'', Success)]"
  by code_simp

subsection \<open>Listing the activity log\<close>

lemma js_slice0_set: "set (js_slice0 xs n) \<subseteq> set xs"
  by (simp add: js_slice0_def Let_def set_take_subset)

lemma js_slice0_sorted_wrt: "sorted_wrt P xs \<Longrightarrow> sorted_wrt P (js_slice0 xs n)"
  by (simp add: js_slice0_def Let_def)

lemma js_slice0_length: "0 \<le> n \<Longrightarrow> length (js_slice0 xs n) = min (nat n) (length xs)"
  by (auto simp: js_slice0_def Let_def min_def)

lemma js_slice0_take: "0 \<le> n \<Longrightarrow> js_slice0 xs n = take (nat n) xs"
  by (auto simp: js_slice0_def Let_def min_def)

lemma js_slice0_negative: "n < 0 \<Longrightarrow> js_slice0 xs n = take (length xs - nat (- n)) xs"
proof -
  assume "n < 0"
  then have "nat (max (int (length xs) + n) 0) = length xs - nat (- n)"
    by (simp add: max_def) arith
  with \<open>n < 0\<close> show ?thesis
    by (simp add: js_slice0_def Let_def)
qed

lemma sort_key_descending:
  "sorted_wrt (\<lambda>a b. createdAt b \<le> createdAt a) (sort_key (\<lambda>l. - createdAt l) xs)"
proof -
  have "sorted (map (\<lambda>l. - createdAt l) (sort_key (\<lambda>l. - createdAt l) xs))"
    by (rule sorted_sort_key)
  then show ?thesis
    by (simp add: sorted_map)
qed

text \<open>
  Claim C8 (the listing holds only the user's entries, newest first, and never more than
  the limit, for every limit) does not hold for a negative limit: \<^verbatim>\<open>slice(0, -1)\<close>
  drops the last entry and keeps the others.
\<close>

theorem getActivityLogsByUserId_negative_limit:
  "map log_id (getActivityLogsByUserId example_logs 7 (- 1)) = [3]
   \<and> int (length (getActivityLogsByUserId example_logs 7 (- 1))) = 1"
  by code_simp

text \<open>
  Claim C8 as amended.  For every user, limit and storage the listing holds only entries
  of that user which are in the log, ordered by creation time, newest first.  For a limit
  that is not negative it is the first \<open>limit\<close> entries of that user's entries sorted
  newest first (entries created at the same time in the order of their creation), or all
  of them when there are fewer: it never holds more than \<open>limit\<close> entries.  For a
  negative limit it is that sorted list without its last \<open>- limit\<close> entries.
\<close>

theorem getActivityLogsByUserId_newest_first:
  "(\<forall>l \<in> set (getActivityLogsByUserId st userId limit).
       log_userId l = userId \<and> l \<in> snd ` set (activityLogs st))
   \<and> sorted_wrt (\<lambda>a b. createdAt b \<le> createdAt a) (getActivityLogsByUserId st userId limit)
   \<and> (0 \<le> limit \<longrightarrow>
        getActivityLogsByUserId st userId limit =
          take (nat limit)
            (sort_key (\<lambda>l. - createdAt l)
               (filter (\<lambda>l. log_userId l = userId) (map snd (activityLogs st))))
        \<and> int (length (getActivityLogsByUserId st userId limit)) \<le> limit
        \<and> length (getActivityLogsByUserId st userId limit) =
            min (nat limit) (length (filter (\<lambda>l. log_userId l = userId) (map snd (activityLogs st)))))
   \<and> (limit < 0 \<longrightarrow>
        getActivityLogsByUserId st userId limit =
          take (length (filter (\<lambda>l. log_userId l = userId) (map snd (activityLogs st))) - nat (- limit))
            (sort_key (\<lambda>l. - createdAt l)
               (filter (\<lambda>l. log_userId l = userId) (map snd (activityLogs st)))))"
proof (intro conjI ballI impI)
  fix l
  assume "l \<in> set (getActivityLogsByUserId st userId limit)"
  then have "l \<in> set (sort_key (\<lambda>l. - createdAt l)
                      (filter (\<lambda>l. log_userId l = userId) (map snd (activityLogs st))))"
    unfolding getActivityLogsByUserId_def by (rule subsetD [OF js_slice0_set])
  then have "l \<in> set (filter (\<lambda>l. log_userId l = userId) (map snd (activityLogs st)))"
    by simp
  then show "log_userId l = userId" and "l \<in> snd ` set (activityLogs st)"
    by auto
next
  show "sorted_wrt (\<lambda>a b. createdAt b \<le> createdAt a) (getActivityLogsByUserId st userId limit)"
    unfolding getActivityLogsByUserId_def
    by (rule js_slice0_sorted_wrt) (rule sort_key_descending)
next
  assume "0 \<le> limit"
  then show "getActivityLogsByUserId st userId limit =
          take (nat limit)
            (sort_key (\<lambda>l. - createdAt l)
               (filter (\<lambda>l. log_userId l = userId) (map snd (activityLogs st))))"
    by (simp add: getActivityLogsByUserId_def js_slice0_take)
next
  assume "0 \<le> limit"
  then show "length (getActivityLogsByUserId st userId limit) =
       min (nat limit) (length (filter (\<lambda>l. log_userId l = userId) (map snd (activityLogs st))))"
    by (simp add: getActivityLogsByUserId_def js_slice0_length)
  with \<open>0 \<le> limit\<close> show "int (length (getActivityLogsByUserId st userId limit)) \<le> limit"
    by simp
next
  assume "limit < 0"
  then show "getActivityLogsByUserId st userId limit =
          take (length (filter (\<lambda>l. log_userId l = userId) (map snd (activityLogs st))) - nat (- limit))
            (sort_key (\<lambda>l. - createdAt l)
               (filter (\<lambda>l. log_userId l = userId) (map snd (activityLogs st))))"
    by (simp add: getActivityLogsByUserId_def js_slice0_negative)
qed

theorem getActivityLogsByUserId_newest_first_witness:
  "map log_id (getActivityLogsByUserId example_logs 7 5) = [3, 1]
   \<and> map log_id (getActivityLogsByUserId example_logs 7 1) = [3]
   \<and> (0::int) \<le> 1
   \<and> getActivityLogsByUserId example_logs 7 1 =
       take (nat 1)
         (sort_key (\<lambda>l. - createdAt l)
            (filter (\<lambda>l. log_userId l = 7) (map snd (activityLogs example_logs))))
   \<and> int (length (getActivityLogsByUserId example_logs 7 1)) \<le> 1
   \<and> sorted_wrt (\<lambda>a b. createdAt b \<le> createdAt a) (getActivityLogsByUserId example_logs 7 1)
   \<and> (- 1 :: int) < 0
   \<and> getActivityLogsByUserId example_logs 7 (- 1) =
       take (length (filter (\<lambda>l. log_userId l = 7) (map snd (activityLogs example_logs))) - nat (- (- 1)))
         (sort_key (\<lambda>l. - createdAt l)
            (filter (\<lambda>l. log_userId l = 7) (map snd (activityLogs example_logs))))
   \<and> hd (getActivityLogsByUserId example_logs 7 5) \<in> set (getActivityLogsByUserId example_logs 7 5)
   \<and> log_userId (hd (getActivityLogsByUserId example_logs 7 5)) = 7"
proof -
  have a: "map log_id (getActivityLogsByUserId example_logs 7 5) = [3, 1]"
    by code_simp
  have b: "map log_id (getActivityLogsByUserId example_logs 7 1) = [3]"
    by code_simp
  have h: "(0::int) \<le> 1"
    by simp
  have n: "(- 1 :: int) < 0"
    by simp
  note t = getActivityLogsByUserId_newest_first [of example_logs 7 1]
  from t h
  have e: "getActivityLogsByUserId example_logs 7 1 =
       take (nat 1)
         (sort_key (\<lambda>l. - createdAt l)
            (filter (\<lambda>l. log_userId l = 7) (map snd (activityLogs example_logs))))"
    and c: "int (length (getActivityLogsByUserId example_logs 7 1)) \<le> 1"
    and d: "sorted_wrt (\<lambda>a b. createdAt b \<le> createdAt a) (getActivityLogsByUserId example_logs 7 1)"
    by blast+
  from getActivityLogsByUserId_newest_first [of example_logs 7 "- 1"] n
  have f: "getActivityLogsByUserId example_logs 7 (- 1) =
       take (length (filter (\<lambda>l. log_userId l = 7) (map snd (activityLogs example_logs))) - nat (- (- 1)))
         (sort_key (\<lambda>l. - createdAt l)
            (filter (\<lambda>l. log_userId l = 7) (map snd (activityLogs example_logs))))"
    by blast
  have m: "hd (getActivityLogsByUserId example_logs 7 5) \<in> set (getActivityLogsByUserId example_logs 7 5)"
    by code_simp
  from getActivityLogsByUserId_newest_first [of example_logs 7 5] m
  have g: "log_userId (hd (getActivityLogsByUserId example_logs 7 5)) = 7"
    by blast
  show ?thesis
    by (intro conjI a b h e c d n f m g)
qed

end
